theory Spec2Isabelle
  imports Main "HOL-Library.Sublist"
begin

section \<open>Strings\<close>

text \<open>
  A Python \<open>str\<close> is a sequence of Unicode code points. The program upper-cases
  descriptions and compares them with literals that contain accented letters, so a
  string is a list of code points here; \<open>cps\<close> turns an ASCII literal into one.
\<close>

type_synonym pystr = "nat list"

definition cps :: "string \<Rightarrow> pystr" where
  "cps s = map of_char s"

text \<open>The string literals of the risk engine and the classifier.\<close>

definition SERVICIOS_PROFESIONALES :: pystr where
  "SERVICIOS_PROFESIONALES = cps ''SERVICIOS PROFESIONALES''"

definition ARRENDAMIENTO :: pystr where
  "ARRENDAMIENTO = cps ''ARRENDAMIENTO''"

definition PUBLICIDAD :: pystr where
  "PUBLICIDAD = cps ''PUBLICIDAD''"

definition GENERICO :: pystr where
  \<comment> \<open>\<open>"GEN\<acute>ERICO"\<close> with U+00C9 as its fourth character\<close>
  "GENERICO = cps ''GEN'' @ [0xC9] @ cps ''RICO''"

definition BAJO :: pystr where
  "BAJO = cps ''BAJO''"

definition MEDIO :: pystr where
  "MEDIO = cps ''MEDIO''"

definition ALTO :: pystr where
  "ALTO = cps ''ALTO''"

definition reason_efos :: pystr where
  "reason_efos = cps ''Proveedor en lista EFOS''"

definition reason_no_evidence :: pystr where
  "reason_no_evidence = cps ''Sin evidencias cargadas''"

definition reason_generic :: pystr where
  \<comment> \<open>\<open>"Concepto gen\<acute>erico"\<close> with U+00E9\<close>
  "reason_generic = cps ''Concepto gen'' @ [0xE9] @ cps ''rico''"

section \<open>Records of the data model\<close>

text \<open>
  The dictionaries of the program have fixed keys, so they are records. The parsed
  invoice grows by one key after classification and by six more when the record is
  assembled; the record extensions follow that. \<open>None\<close> values of \<open>attrib.get\<close>
  are kept as options. Floats are values of an abstract type \<open>'f\<close>.
\<close>

record 'f cfdi_data =
  uuid :: pystr
  emisor_rfc :: "pystr option"
  receptor_rfc :: "pystr option"
  concept :: pystr
  subtotal :: 'f
  iva :: 'f
  total :: 'f
  fecha :: "pystr option"

record 'f cfdi_classified = "'f cfdi_data" +
  concept_type :: pystr

record efos_result =
  rfc :: "pystr option"
  is_efos :: bool
  source :: pystr
  checked_at :: pystr

record evidence =
  ev_id :: pystr
  ev_cfdi_uuid :: pystr
  filename :: pystr
  ev_hash :: pystr
  uploaded_at :: pystr

record risk =
  score :: int
  level :: pystr
  reasons :: "pystr list"

record taxonomy_entry =
  materialidad :: "pystr list"
  isr_deductible :: bool
  iva_creditable :: bool

record 'f memoria_rec =
  base :: 'f
  mem_iva :: 'f
  mem_total :: 'f
  fundamento :: pystr
  documentos_requeridos :: "pystr list"

record 'f cfdi_record = "'f cfdi_classified" +
  taxonomy :: taxonomy_entry
  efos :: efos_result
  memoria :: "'f memoria_rec"
  razon_negocio :: pystr
  riesgo :: risk
  created_at :: pystr

record alert =
  alert_id :: pystr
  alert_cfdi_uuid :: pystr
  alert_level :: pystr
  alert_reasons :: "pystr list"
  alert_ts :: pystr

record log_entry =
  log_id :: pystr
  log_ts :: pystr
  log_user :: "pystr option"
  action :: pystr
  detail :: pystr

record user =
  password :: pystr
  role :: pystr

section \<open>The platform\<close>

text \<open>
  The library and operating-system calls whose results the program only passes on are
  parameters, collected in one record: \<open>float\<close> of a string (\<open>None\<close> where
  Python raises \<open>ValueError\<close>), \<open>float(0)\<close>, float subtraction,
  \<open>round(x, 2)\<close>, the comparison \<open>==\<close> of two floats (which is not the identity
  of values: a NaN is unequal to itself), the formatting of a float in an f-string,
  the upper-case mapping of the code points beyond ASCII,
  \<open>ET.parse(path).getroot()\<close> on the bytes of a file (or the exception it raises:
  \<open>ParseError\<close>, and \<open>LookupError\<close> or \<open>ValueError\<close> for encodings it
  cannot read), the SHA-256 digest of the bytes, and the file that a path string
  denotes (the name resolution of the operating system, which follows \<open>..\<close>).
  Every theorem below holds for every platform. Opening a file for writing is taken to
  succeed.
\<close>

datatype exn =
  ParseError | LookupError | ValueError | AttributeError | KeyError | OtherError pystr

datatype element =
  Element (tag: pystr) (attrib: "(pystr \<times> pystr) list") (children: "element list")

record ('f, 'b) platform =
  py_float :: "pystr \<Rightarrow> 'f option"
  float_zero :: 'f
  float_sub :: "'f \<Rightarrow> 'f \<Rightarrow> 'f"
  round2 :: "'f \<Rightarrow> 'f"
  float_eq :: "'f \<Rightarrow> 'f \<Rightarrow> bool"
  float_str :: "'f \<Rightarrow> pystr"
  ucd_upper :: "nat \<Rightarrow> pystr"
  et_parse :: "'b \<Rightarrow> exn + element"
  sha256_hex :: "'b \<Rightarrow> pystr"
  resolve :: "pystr \<Rightarrow> pystr"

section \<open>The stores and the disk\<close>

text \<open>
  A file holds the bytes of an upload, a collection as \<open>save_db\<close> dumps it, or an
  export. A row of a CSV export is the list of its cells in key order; \<open>None\<close> is
  a cell of its own.
\<close>

datatype 'f cell = CStr pystr | CNone | CFloat 'f | CBool bool

datatype ('f, 'b) disk_file =
    Upload 'b
  | UsersJson "pystr \<rightharpoonup> user"
  | CfdisJson "'f cfdi_record list"
  | EvidencesJson "evidence list"
  | LogsJson "log_entry list"
  | AlertsJson "alert list"
  | Csv "'f cell list list"
  | JsonDump "'f cfdi_record list" "alert list" "log_entry list"

text \<open>
  The five global collections, the session of the request being handled
  (\<open>session["user"]\<close>), the disk as a map from files to contents, and the two
  sources the program draws from: \<open>uuid.uuid4()\<close> and \<open>datetime.now()\<close>, each a
  sequence with the index of the next draw.
\<close>

record ('f, 'b) state =
  USERS :: "pystr \<rightharpoonup> user"
  CFDIS :: "'f cfdi_record list"
  EVIDENCES :: "evidence list"
  LOGS :: "log_entry list"
  ALERTS :: "alert list"
  session :: "pystr option"
  disk :: "pystr \<rightharpoonup> ('f, 'b) disk_file"
  uuid_src :: "nat \<Rightarrow> pystr"
  uuid_ix :: nat
  clock_src :: "nat \<Rightarrow> pystr"
  clock_ix :: nat

definition uuid4 :: "('f, 'b) state \<Rightarrow> pystr \<times> ('f, 'b) state" where
  "uuid4 s = (uuid_src s (uuid_ix s), s\<lparr>uuid_ix := uuid_ix s + 1\<rparr>)"

definition now :: "('f, 'b) state \<Rightarrow> pystr \<times> ('f, 'b) state" where
  "now s = (clock_src s (clock_ix s), s\<lparr>clock_ix := clock_ix s + 1\<rparr>)"

definition UPLOAD_DIR :: pystr where
  "UPLOAD_DIR = cps ''uploads''"

definition DATA_DIR :: pystr where
  "DATA_DIR = cps ''data''"

text \<open>
  \<open>os.path.join\<close> of a directory name and a second component: a component that
  starts with a slash replaces the directory, any other is appended after a slash.
  Nothing is removed from it, so \<open>..\<close> stays in the path.
\<close>

definition path_join :: "pystr \<Rightarrow> pystr \<Rightarrow> pystr" where
  "path_join dir name =
    (case name of
       [] \<Rightarrow> dir @ [0x2F]
     | c # cs \<Rightarrow> if c = 0x2F then name else dir @ [0x2F] @ name)"

text \<open>
  Writing a file: the content replaces whatever the file that the path denotes held.
  \<open>save_db(name, data)\<close> writes under \<open>DATA_DIR\<close>; \<open>f.save(path)\<close> of an
  upload writes its bytes under \<open>UPLOAD_DIR\<close> and the client's file name, as it
  came.
\<close>

definition write_file ::
  "('f, 'b) platform \<Rightarrow> pystr \<Rightarrow> ('f, 'b) disk_file \<Rightarrow> ('f, 'b) state \<Rightarrow> ('f, 'b) state" where
  "write_file P path content s = s\<lparr>disk := (disk s)(resolve P path \<mapsto> content)\<rparr>"

definition save_db ::
  "('f, 'b) platform \<Rightarrow> string \<Rightarrow> ('f, 'b) disk_file \<Rightarrow> ('f, 'b) state \<Rightarrow> ('f, 'b) state" where
  "save_db P name content s = write_file P (path_join DATA_DIR (cps name)) content s"

definition file_save ::
  "('f, 'b) platform \<Rightarrow> pystr \<Rightarrow> 'b \<Rightarrow> ('f, 'b) state \<Rightarrow> ('f, 'b) state" where
  "file_save P fname bytes s = write_file P (path_join UPLOAD_DIR fname) (Upload bytes) s"

definition log ::
  "('f, 'b) platform \<Rightarrow> pystr \<Rightarrow> pystr \<Rightarrow> ('f, 'b) state \<Rightarrow> ('f, 'b) state" where
  "log P act det s =
    (let (i, s1) = uuid4 s;
         (t, s2) = now s1;
         s3 = s2\<lparr>LOGS := LOGS s2 @
                [\<lparr>log_id = i, log_ts = t, log_user = session s2,
                  action = act, detail = det\<rparr>]\<rparr>
     in save_db P ''logs.json'' (LogsJson (LOGS s3)) s3)"

section \<open>Risk engine\<close>

text \<open>
  \<open>risk_engine\<close> runs three independent \<open>if\<close> statements over the running pair
  (risk, reasons) and then picks the level with an \<open>if\<close>/\<open>elif\<close>.
\<close>

definition risk_engine ::
  "('f, 'a) cfdi_classified_scheme \<Rightarrow> efos_result \<Rightarrow> evidence list \<Rightarrow> risk" where
  "risk_engine cfdi efos_check evidences =
    (let r0 = (0, []);
         r1 = (if is_efos efos_check
               then (fst r0 + 60, snd r0 @ [reason_efos]) else r0);
         r2 = (if evidences = []
               then (fst r1 + 25, snd r1 @ [reason_no_evidence]) else r1);
         r3 = (if concept_type cfdi = GENERICO
               then (fst r2 + 15, snd r2 @ [reason_generic]) else r2);
         lvl = (if fst r3 \<ge> 60 then ALTO else if fst r3 \<ge> 30 then MEDIO else BAJO)
     in \<lparr>score = fst r3, level = lvl, reasons = snd r3\<rparr>)"

section \<open>Concept classifier and taxonomy\<close>

text \<open>
  \<open>str.upper\<close> maps every code point on its own: an ASCII lower-case letter to its
  capital, any other ASCII code point to itself, a code point beyond ASCII to what the
  Unicode tables give (one or more code points), which is the parameter \<open>ucd\<close>.
\<close>

definition upper_cp :: "(nat \<Rightarrow> pystr) \<Rightarrow> nat \<Rightarrow> pystr" where
  "upper_cp ucd c =
    (if 97 \<le> c \<and> c \<le> 122 then [c - 32] else if c < 128 then [c] else ucd c)"

definition upper :: "(nat \<Rightarrow> pystr) \<Rightarrow> pystr \<Rightarrow> pystr" where
  "upper ucd s = concat (map (upper_cp ucd) s)"

text \<open>\<open>sub in s\<close> on strings: \<open>sub\<close> occurs in \<open>s\<close> as a contiguous run.\<close>

fun str_in :: "pystr \<Rightarrow> pystr \<Rightarrow> bool" where
  "str_in sub [] = (sub = [])"
| "str_in sub (x # xs) = (prefix sub (x # xs) \<or> str_in sub xs)"

definition classify_concept :: "(nat \<Rightarrow> pystr) \<Rightarrow> pystr \<Rightarrow> pystr" where
  "classify_concept ucd concept_text =
    (let c = upper ucd concept_text in
     if str_in (cps ''SERV'') c then SERVICIOS_PROFESIONALES
     else if str_in (cps ''ARREND'') c then ARRENDAMIENTO
     else if str_in (cps ''PUBLI'') c \<or> str_in (cps ''MARKET'') c then PUBLICIDAD
     else GENERICO)"

definition TAXONOMY :: "(pystr \<times> taxonomy_entry) list" where
  "TAXONOMY =
    [(SERVICIOS_PROFESIONALES,
      \<lparr>materialidad = [cps ''Contrato'', cps ''SLA'', cps ''Orden de Servicio'',
                        cps ''Entregables'',
                        cps ''Evidencia de prestaci'' @ [0xF3] @ cps ''n''],
       isr_deductible = True, iva_creditable = True\<rparr>),
     (ARRENDAMIENTO,
      \<lparr>materialidad = [cps ''Contrato de arrendamiento'', cps ''Comprobante de pago'',
                        cps ''Uso del bien''],
       isr_deductible = True, iva_creditable = True\<rparr>),
     (PUBLICIDAD,
      \<lparr>materialidad = [cps ''Contrato'', cps ''Brief'', cps ''Pautas'', cps ''Reportes'',
                        cps ''Evidencia''],
       isr_deductible = True, iva_creditable = True\<rparr>),
     (GENERICO,
      \<lparr>materialidad = [cps ''Contrato'', cps ''Orden de compra'', cps ''Evidencia''],
       isr_deductible = False, iva_creditable = False\<rparr>)]"

section \<open>Registry check, memo and justification\<close>

definition demo_efos :: "pystr list" where
  "demo_efos = [cps ''AAA010101AAA'', cps ''EFX990909EFX'']"

text \<open>The identifier may be \<open>None\<close> (a missing \<open>Rfc\<close> attribute), which is in no set of strings.\<close>

definition check_rfc_efos :: "pystr option \<Rightarrow> ('f, 'b) state \<Rightarrow> efos_result \<times> ('f, 'b) state" where
  "check_rfc_efos r s =
    (let (t, s1) = now s
     in (\<lparr>rfc = r,
          is_efos = (case r of None \<Rightarrow> False | Some x \<Rightarrow> x \<in> set demo_efos),
          source = cps ''SAT/DOF (demo)'',
          checked_at = t\<rparr>, s1))"

definition calc_memoria ::
  "('f, 'a) cfdi_data_scheme \<Rightarrow> taxonomy_entry \<Rightarrow> 'f memoria_rec" where
  "calc_memoria cfdi tx =
    \<lparr>base = subtotal cfdi, mem_iva = iva cfdi, mem_total = total cfdi,
     fundamento = cps ''LISR Art. 25, LIVA Art. 5, CFF Art. 5'',
     documentos_requeridos = materialidad tx\<rparr>"

text \<open>An f-string formats \<open>None\<close> as the text \<open>None\<close>.\<close>

definition str_opt :: "pystr option \<Rightarrow> pystr" where
  "str_opt v = (case v of None \<Rightarrow> cps ''None'' | Some t \<Rightarrow> t)"

definition business_reason_art5 ::
  "('f, 'b) platform \<Rightarrow> ('f, 'a) cfdi_data_scheme \<Rightarrow> pystr" where
  "business_reason_art5 P cfdi =
    cps ''La operaci'' @ [0xF3] @ cps ''n '' @ [0x27] @ concept cfdi
    @ [0x27] @ cps '' se realiz'' @ [0xF3] @ cps '' para la obtenci'' @ [0xF3]
    @ cps ''n de ingresos, optimizaci'' @ [0xF3]
    @ cps ''n de procesos y cumplimiento del objeto social. Existe sustancia econ''
    @ [0xF3] @ cps ''mica al contar con proveedor identificado (''
    @ str_opt (emisor_rfc cfdi)
    @ cps ''), contraprestaci'' @ [0xF3] @ cps ''n (''
    @ float_str P (total cfdi)
    @ cps ''), y documentaci'' @ [0xF3] @ cps ''n de soporte. No es una operaci''
    @ [0xF3] @ cps ''n artificiosa.''"

section \<open>CFDI parser\<close>

text \<open>
  \<open>find("cfdi:X", ns)\<close> returns the first direct child whose tag is \<open>X\<close> in the
  CFDI 3 namespace, or \<open>None\<close>; \<open>attrib.get(k)\<close> returns the attribute or
  \<open>None\<close>.
\<close>

definition cfdi_ns :: pystr where
  "cfdi_ns = cps ''http://www.sat.gob.mx/cfd/3''"

definition qname :: "string \<Rightarrow> pystr" where
  "qname local = cps ''{'' @ cfdi_ns @ cps ''}'' @ cps local"

definition find_child :: "element \<Rightarrow> string \<Rightarrow> element option" where
  "find_child e local = List.find (\<lambda>c. tag c = qname local) (children e)"

definition attrib_get :: "element \<Rightarrow> string \<Rightarrow> pystr option" where
  "attrib_get e k = map_of (attrib e) (cps k)"

text \<open>\<open>float(root.attrib.get(k, 0))\<close>: a missing attribute gives \<open>float(0)\<close>.\<close>

definition float_attr :: "('f, 'b) platform \<Rightarrow> element \<Rightarrow> string \<Rightarrow> 'f option" where
  "float_attr P e k =
    (case attrib_get e k of None \<Rightarrow> Some (float_zero P) | Some t \<Rightarrow> py_float P t)"

text \<open>
  The statements of \<open>parse_cfdi_xml\<close> in their order; \<open>ET.parse(path)\<close> reads
  the bytes that \<open>f.save\<close> has just written there. An exception of \<open>ET.parse\<close>
  is passed on. Reading \<open>.attrib\<close> or calling
  \<open>.find\<close> on \<open>None\<close> raises \<open>AttributeError\<close>: for the concepts container when
  the first concept is looked up, for issuer, recipient and first concept when the
  dictionary is built, after the identifier has been drawn.
\<close>

definition parse_cfdi_xml ::
  "('f, 'b) platform \<Rightarrow> 'b \<Rightarrow> ('f, 'b) state \<Rightarrow> (exn + 'f cfdi_data) \<times> ('f, 'b) state" where
  "parse_cfdi_xml P file s =
    (case et_parse P file of
       Inl e \<Rightarrow> (Inl e, s)
     | Inr root \<Rightarrow>
        let emisor = find_child root ''Emisor'';
            receptor = find_child root ''Receptor'';
            conceptos = find_child root ''Conceptos''
        in (case conceptos of
              None \<Rightarrow> (Inl AttributeError, s)
            | Some cs \<Rightarrow>
               let concepto = find_child cs ''Concepto''
               in (case float_attr P root ''SubTotal'' of
                     None \<Rightarrow> (Inl ValueError, s)
                   | Some sub \<Rightarrow>
                      (case float_attr P root ''Total'' of
                         None \<Rightarrow> (Inl ValueError, s)
                       | Some tot \<Rightarrow>
                          let iva0 = float_sub P tot sub;
                              (u, s1) = uuid4 s
                          in (case emisor of
                                None \<Rightarrow> (Inl AttributeError, s1)
                              | Some em \<Rightarrow>
                                 (case receptor of
                                    None \<Rightarrow> (Inl AttributeError, s1)
                                  | Some re \<Rightarrow>
                                     (case concepto of
                                        None \<Rightarrow> (Inl AttributeError, s1)
                                      | Some co \<Rightarrow>
                                         (Inr \<lparr>uuid = u,
                                               emisor_rfc = attrib_get em ''Rfc'',
                                               receptor_rfc = attrib_get re ''Rfc'',
                                               concept =
                                                 (case attrib_get co ''Descripcion'' of
                                                    None \<Rightarrow> [] | Some d \<Rightarrow> d),
                                               subtotal = sub,
                                               iva = round2 P iva0,
                                               total = tot,
                                               fecha = attrib_get root ''Fecha''\<rparr>,
                                          s1))))))))"

section \<open>Requests, responses and the access wrapper\<close>

text \<open>
  What a route answers: a redirect to an endpoint, a rendered page, the 403 of the
  wrapper, the 400 Flask gives for a missing form field, the 500 of an uncaught
  exception, or a file sent as attachment.
\<close>

datatype ('f, 'b) response =
    Redirect pystr
  | LoginPage
  | DashboardPage pystr "'f cfdi_record list" "alert list"
  | Forbidden
  | BadRequest
  | ServerError exn
  | SendFile pystr "('f, 'b) disk_file"

text \<open>An uploaded file is its name and its bytes; a form field may be missing.\<close>

datatype 'b request =
    GetHome
  | GetLogin
  | PostLogin "pystr option" "pystr option"
  | GetLogout
  | GetDashboard
  | PostUploadCfdi "(pystr \<times> 'b) option"
  | PostUploadEvidence "pystr option" "(pystr \<times> 'b) option"
  | GetExportIsr
  | GetExportIva
  | GetExportJson

text \<open>
  \<open>login_required(role)\<close>: \<open>role\<close> counts as given when it is neither \<open>None\<close>
  nor the empty string; only then is the user looked up.
\<close>

definition login_required ::
  "pystr option \<Rightarrow> (('f, 'b) state \<Rightarrow> ('f, 'b) response \<times> ('f, 'b) state) \<Rightarrow> ('f, 'b) state
     \<Rightarrow> ('f, 'b) response \<times> ('f, 'b) state" where
  "login_required role_arg fn s =
    (case session s of
       None \<Rightarrow> (Redirect (cps ''login''), s)
     | Some u \<Rightarrow>
        (case role_arg of
           None \<Rightarrow> fn s
         | Some r \<Rightarrow>
            if r = [] then fn s
            else (case USERS s u of
                    None \<Rightarrow> (ServerError KeyError, s)
                  | Some usr \<Rightarrow> if role usr \<noteq> r then (Forbidden, s) else fn s)))"

section \<open>Routes\<close>

definition home :: "('f, 'b) state \<Rightarrow> ('f, 'b) response \<times> ('f, 'b) state" where
  "home s =
    (case session s of
       Some u \<Rightarrow> (Redirect (cps ''dashboard''), s)
     | None \<Rightarrow> (Redirect (cps ''login''), s))"

definition login ::
  "('f, 'b) platform \<Rightarrow> pystr option \<Rightarrow> pystr option \<Rightarrow> ('f, 'b) state
     \<Rightarrow> ('f, 'b) response \<times> ('f, 'b) state" where
  "login P email pw s =
    (case email of
       None \<Rightarrow> (BadRequest, s)
     | Some u \<Rightarrow>
        (case pw of
           None \<Rightarrow> (BadRequest, s)
         | Some p \<Rightarrow>
            (case USERS s u of
               None \<Rightarrow> (LoginPage, s)
             | Some usr \<Rightarrow>
                if password usr = p
                then (Redirect (cps ''dashboard''),
                      log P (cps ''LOGIN'') [] (s\<lparr>session := Some u\<rparr>))
                else (LoginPage, s))))"

definition logout ::
  "('f, 'b) platform \<Rightarrow> ('f, 'b) state \<Rightarrow> ('f, 'b) response \<times> ('f, 'b) state" where
  "logout P s =
    (let s1 = log P (cps ''LOGOUT'') [] s
     in (Redirect (cps ''login''), s1\<lparr>session := None\<rparr>))"

definition dashboard :: "('f, 'b) state \<Rightarrow> ('f, 'b) response \<times> ('f, 'b) state" where
  "dashboard s =
    (case session s of
       None \<Rightarrow> (ServerError KeyError, s)
     | Some u \<Rightarrow>
        (case USERS s u of
           None \<Rightarrow> (ServerError KeyError, s)
         | Some usr \<Rightarrow> (DashboardPage (role usr) (CFDIS s) (ALERTS s), s)))"

text \<open>
  \<open>upload_cfdi\<close>: the upload is written under \<open>UPLOAD_DIR\<close> first, with the
  file name the client sent, and parsed from there. An exception of the parser ends
  the request with the state as it is at that point.
\<close>

definition upload_cfdi ::
  "('f, 'b) platform \<Rightarrow> (pystr \<times> 'b) option \<Rightarrow> ('f, 'b) state \<Rightarrow> ('f, 'b) response \<times> ('f, 'b) state" where
  "upload_cfdi P file_field s =
    (case file_field of
       None \<Rightarrow> (BadRequest, s)
     | Some (fname, bytes) \<Rightarrow>
        (case parse_cfdi_xml P bytes (file_save P fname bytes s) of
           (Inl e, s1) \<Rightarrow> (ServerError e, s1)
         | (Inr data0, s1) \<Rightarrow>
            let ct = classify_concept (ucd_upper P) (concept data0);
                data = cfdi_data.extend data0 (cfdi_classified.fields ct)
            in (case map_of TAXONOMY ct of
                  None \<Rightarrow> (ServerError KeyError, s1)
                | Some tx \<Rightarrow>
                   let (ef, s2) = check_rfc_efos (emisor_rfc data) s1;
                       mem = calc_memoria data tx;
                       reason = business_reason_art5 P data;
                       evidences =
                         filter (\<lambda>e. ev_cfdi_uuid e = uuid data) (EVIDENCES s2);
                       rk = risk_engine data ef evidences;
                       (t, s3) = now s2;
                       record =
                         cfdi_classified.extend data
                           (cfdi_record.fields tx ef mem reason rk t);
                       s3a = s3\<lparr>CFDIS := CFDIS s3 @ [record]\<rparr>;
                       s4 = save_db P ''cfdis.json'' (CfdisJson (CFDIS s3a)) s3a;
                       s5 = (if level rk \<noteq> BAJO
                             then let (i, s4a) = uuid4 s4;
                                      (ts, s4b) = now s4a;
                                      s4c = s4b\<lparr>ALERTS := ALERTS s4b @
                                              [\<lparr>alert_id = i,
                                                alert_cfdi_uuid = uuid data,
                                                alert_level = level rk,
                                                alert_reasons = reasons rk,
                                                alert_ts = ts\<rparr>]\<rparr>
                                  in save_db P ''alerts.json'' (AlertsJson (ALERTS s4c)) s4c
                             else s4);
                       s6 = log P (cps ''UPLOAD_CFDI'') fname s5
                   in (Redirect (cps ''dashboard''), s6))))"

definition upload_evidence ::
  "('f, 'b) platform \<Rightarrow> pystr option \<Rightarrow> (pystr \<times> 'b) option \<Rightarrow> ('f, 'b) state
     \<Rightarrow> ('f, 'b) response \<times> ('f, 'b) state" where
  "upload_evidence P form_uuid file_field s =
    (case form_uuid of
       None \<Rightarrow> (BadRequest, s)
     | Some cu \<Rightarrow>
        (case file_field of
           None \<Rightarrow> (BadRequest, s)
         | Some (fname, bytes) \<Rightarrow>
            let s0 = file_save P fname bytes s;
                (i, s1) = uuid4 s0;
                h = sha256_hex P bytes;
                (t, s2) = now s1;
                s2a = s2\<lparr>EVIDENCES := EVIDENCES s2 @
                          [\<lparr>ev_id = i, ev_cfdi_uuid = cu, filename = fname,
                            ev_hash = h, uploaded_at = t\<rparr>]\<rparr>;
                s3 = save_db P ''evidences.json'' (EvidencesJson (EVIDENCES s2a)) s2a;
                s4 = log P (cps ''UPLOAD_EVIDENCE'') fname s3
            in (Redirect (cps ''dashboard''), s4)))"

section \<open>Exports\<close>

text \<open>
  A row dictionary is the list of its cells in key order; \<open>None\<close> is a cell of
  its own. \<open>write_csv\<close> is the body of the \<open>with\<close> block: the header (the keys of
  the first row) and the rows are written only when there is a row.
\<close>

definition cell_opt :: "pystr option \<Rightarrow> 'f cell" where
  "cell_opt v = (case v of None \<Rightarrow> CNone | Some t \<Rightarrow> CStr t)"

definition write_csv :: "'f cell list \<Rightarrow> 'f cell list list \<Rightarrow> 'f cell list list" where
  "write_csv header out = (if out \<noteq> [] then header # out else [])"

definition header_cells :: "string list \<Rightarrow> 'f cell list" where
  "header_cells keys = map (\<lambda>k. CStr (cps k)) keys"

definition isr_keys :: "string list" where
  "isr_keys = [''uuid'', ''rfc_emisor'', ''concepto'', ''base'', ''deducible'']"

definition iva_keys :: "string list" where
  "iva_keys = [''uuid'', ''rfc_emisor'', ''concepto'', ''iva'', ''acreditable'']"

definition isr_rows :: "'f cfdi_record list \<Rightarrow> 'f cell list list" where
  "isr_rows cfdis =
    map (\<lambda>c. [CStr (uuid c), cell_opt (emisor_rfc c), CStr (concept c),
               CFloat (base (memoria c)), CBool True])
        (filter (\<lambda>c. isr_deductible (taxonomy c)) cfdis)"

definition iva_rows :: "'f cfdi_record list \<Rightarrow> 'f cell list list" where
  "iva_rows cfdis =
    map (\<lambda>c. [CStr (uuid c), cell_opt (emisor_rfc c), CStr (concept c),
               CFloat (mem_iva (memoria c)), CBool True])
        (filter (\<lambda>c. iva_creditable (taxonomy c)) cfdis)"

text \<open>
  An export writes its file under \<open>DATA_DIR\<close>, logs, and sends the file it has
  written.
\<close>

definition export_isr ::
  "('f, 'b) platform \<Rightarrow> ('f, 'b) state \<Rightarrow> ('f, 'b) response \<times> ('f, 'b) state" where
  "export_isr P s =
    (let out = isr_rows (CFDIS s);
         path = path_join DATA_DIR (cps ''cedula_isr.csv'');
         file = write_csv (header_cells isr_keys) out;
         s0 = write_file P path (Csv file) s;
         s1 = log P (cps ''EXPORT_ISR'') [] s0
     in (SendFile path (Csv file), s1))"

definition export_iva ::
  "('f, 'b) platform \<Rightarrow> ('f, 'b) state \<Rightarrow> ('f, 'b) response \<times> ('f, 'b) state" where
  "export_iva P s =
    (let out = iva_rows (CFDIS s);
         path = path_join DATA_DIR (cps ''cedula_iva.csv'');
         file = write_csv (header_cells iva_keys) out;
         s0 = write_file P path (Csv file) s;
         s1 = log P (cps ''EXPORT_IVA'') [] s0
     in (SendFile path (Csv file), s1))"

definition export_json ::
  "('f, 'b) platform \<Rightarrow> ('f, 'b) state \<Rightarrow> ('f, 'b) response \<times> ('f, 'b) state" where
  "export_json P s =
    (let path = path_join DATA_DIR (cps ''arkanum_export.json'');
         file = JsonDump (CFDIS s) (ALERTS s) (LOGS s);
         s0 = write_file P path file s;
         s1 = log P (cps ''EXPORT_JSON'') [] s0
     in (SendFile path file, s1))"

section \<open>The application\<close>

text \<open>
  The route table with its decorators. A request arrives with the session of its
  client; \<open>run\<close> serves a sequence of requests, one after the other.
\<close>

definition handle ::
  "('f, 'b) platform \<Rightarrow> 'b request \<Rightarrow> ('f, 'b) state \<Rightarrow> ('f, 'b) response \<times> ('f, 'b) state" where
  "handle P r s =
    (case r of
       GetHome \<Rightarrow> home s
     | GetLogin \<Rightarrow> (LoginPage, s)
     | PostLogin email pw \<Rightarrow> login P email pw s
     | GetLogout \<Rightarrow> logout P s
     | GetDashboard \<Rightarrow> login_required None dashboard s
     | PostUploadCfdi f \<Rightarrow> login_required None (upload_cfdi P f) s
     | PostUploadEvidence cu f \<Rightarrow> login_required None (upload_evidence P cu f) s
     | GetExportIsr \<Rightarrow> login_required None (export_isr P) s
     | GetExportIva \<Rightarrow> login_required None (export_iva P) s
     | GetExportJson \<Rightarrow> login_required None (export_json P) s)"

fun run ::
  "('f, 'b) platform \<Rightarrow> (pystr option \<times> 'b request) list \<Rightarrow> ('f, 'b) state \<Rightarrow> ('f, 'b) state" where
  "run P [] s = s"
| "run P ((cookie, r) # rs) s = run P rs (snd (handle P r (s\<lparr>session := cookie\<rparr>)))"

text \<open>
  The state after start-up on an empty data directory: each \<open>load_db\<close> finds no
  file, writes the default and reads it back.
\<close>

definition default_users :: "pystr \<rightharpoonup> user" where
  "default_users =
    [cps ''director@arkanum'' \<mapsto> \<lparr>password = cps ''1234'', role = cps ''DIRECTOR''\<rparr>,
     cps ''contador@arkanum'' \<mapsto> \<lparr>password = cps ''1234'', role = cps ''CONTADOR''\<rparr>]"

definition init_state ::
  "('f, 'b) platform \<Rightarrow> (nat \<Rightarrow> pystr) \<Rightarrow> (nat \<Rightarrow> pystr) \<Rightarrow> ('f, 'b) state" where
  "init_state P us cl =
    (let s0 = \<lparr>USERS = default_users, CFDIS = [], EVIDENCES = [], LOGS = [], ALERTS = [],
               session = None, disk = Map.empty,
               uuid_src = us, uuid_ix = 0, clock_src = cl, clock_ix = 0\<rparr>;
         s1 = save_db P ''users.json'' (UsersJson default_users) s0;
         s2 = save_db P ''cfdis.json'' (CfdisJson []) s1;
         s3 = save_db P ''evidences.json'' (EvidencesJson []) s2;
         s4 = save_db P ''logs.json'' (LogsJson []) s3
     in save_db P ''alerts.json'' (AlertsJson []) s4)"

section \<open>The classifier as the specification words it\<close>

text \<open>
  The specification calls the classifier a case-insensitive substring match in priority
  order. \<open>ci_substring kw t\<close> says so directly: at some position of the text the
  window of the keyword's length equals the keyword once ASCII letters are folded to
  capitals. \<open>spec_classify\<close> is the priority chain over it, to be compared with
  \<open>classify_concept\<close>.
\<close>

definition ascii_upper :: "nat \<Rightarrow> nat" where
  "ascii_upper c = (if 97 \<le> c \<and> c \<le> 122 then c - 32 else c)"

definition ci_substring :: "pystr \<Rightarrow> pystr \<Rightarrow> bool" where
  "ci_substring kw t =
    list_ex (\<lambda>i. map ascii_upper (take (length kw) (drop i t)) = map ascii_upper kw)
      [0..<Suc (length t)]"

definition spec_classify :: "pystr \<Rightarrow> pystr" where
  "spec_classify t =
    (if ci_substring (cps ''SERV'') t then SERVICIOS_PROFESIONALES
     else if ci_substring (cps ''ARREND'') t then ARRENDAMIENTO
     else if ci_substring (cps ''PUBLI'') t \<or> ci_substring (cps ''MARKET'') t
     then PUBLICIDAD
     else GENERICO)"

section \<open>Concrete inputs\<close>

text \<open>
  A small platform to run the model on. A float is a whole number of thousandths, or
  NaN (\<open>None\<close>); \<open>float\<close> reads \<open>nan\<close> and decimal numerals with at most
  three decimals; subtraction and rounding pass NaN on, rounding goes to the nearest
  hundredth, and \<open>==\<close> is false as soon as one side is NaN. Code points beyond
  ASCII are left as they are by \<open>upper\<close>. An upload is the tree its bytes parse to,
  or \<open>None\<close> when they are not XML. A path that starts with \<open>uploads/../\<close>
  denotes what the rest of it denotes; every other path denotes itself.
\<close>

definition digits_value :: "pystr \<Rightarrow> nat option" where
  "digits_value t =
    (if t \<noteq> [] \<and> list_all (\<lambda>c. 48 \<le> c \<and> c \<le> 57) t
     then Some (foldl (\<lambda>a c. 10 * a + (c - 48)) 0 t) else None)"

definition thousandths_of_str :: "pystr \<Rightarrow> int option" where
  "thousandths_of_str t =
    (let ip = takeWhile (\<lambda>c. c \<noteq> 46) t;
         fp = drop (Suc (length ip)) t
     in if 1 \<le> length fp \<and> length fp \<le> 3
        then (case (digits_value ip, digits_value (fp @ replicate (3 - length fp) 48)) of
                (Some a, Some b) \<Rightarrow> Some (int (1000 * a + b))
              | _ \<Rightarrow> None)
        else None)"

definition demo_float :: "pystr \<Rightarrow> int option option" where
  "demo_float t =
    (if t = cps ''nan'' then Some None
     else (case thousandths_of_str t of None \<Rightarrow> None | Some m \<Rightarrow> Some (Some m)))"

definition demo_sub :: "int option \<Rightarrow> int option \<Rightarrow> int option" where
  "demo_sub a b = (case (a, b) of (Some x, Some y) \<Rightarrow> Some (x - y) | _ \<Rightarrow> None)"

definition demo_round2 :: "int option \<Rightarrow> int option" where
  "demo_round2 a = (case a of None \<Rightarrow> None | Some x \<Rightarrow> Some (10 * ((x + 5) div 10)))"

definition demo_eq :: "int option \<Rightarrow> int option \<Rightarrow> bool" where
  "demo_eq a b = (case (a, b) of (Some x, Some y) \<Rightarrow> x = y | _ \<Rightarrow> False)"

definition demo_resolve :: "pystr \<Rightarrow> pystr" where
  "demo_resolve p = (if prefix (cps ''uploads/../'') p then drop 11 p else p)"

definition demo_parse :: "element option \<Rightarrow> exn + element" where
  "demo_parse b = (case b of None \<Rightarrow> Inl ParseError | Some root \<Rightarrow> Inr root)"

definition demo_platform :: "(int option, element option) platform" where
  "demo_platform =
    \<lparr>py_float = demo_float, float_zero = Some 0, float_sub = demo_sub,
     round2 = demo_round2, float_eq = demo_eq, float_str = (\<lambda>x. cps ''(amount)''),
     ucd_upper = (\<lambda>c. [c]), et_parse = demo_parse,
     sha256_hex = (\<lambda>b. cps ''(digest)''), resolve = demo_resolve\<rparr>"

definition demo_uuids :: "nat \<Rightarrow> pystr" where
  "demo_uuids n =
    cps ''00000000-0000-4000-8000-0000000000'' @ [48 + n div 10 mod 10, 48 + n mod 10]"

definition demo_clock :: "nat \<Rightarrow> pystr" where
  "demo_clock n = cps ''2024-01-15T10:00:'' @ [48 + n div 10 mod 10, 48 + n mod 10]"

definition demo_state :: "(int option, element option) state" where
  "demo_state = init_state demo_platform demo_uuids demo_clock"

definition director :: "pystr option" where
  "director = Some (cps ''director@arkanum'')"

text \<open>
  Four documents: a complete invoice for services, whose total has a third decimal;
  the same with \<open>nan\<close> as its total; one with every element but no attribute at
  all; one without the issuer element.
\<close>

definition doc_services :: element where
  "doc_services =
    Element (qname ''Comprobante'')
      [(cps ''SubTotal'', cps ''100.00''), (cps ''Total'', cps ''116.004''),
       (cps ''Fecha'', cps ''2024-01-15T09:00:00'')]
      [Element (qname ''Emisor'') [(cps ''Rfc'', cps ''XAXX010101000'')] [],
       Element (qname ''Receptor'') [(cps ''Rfc'', cps ''BBB020202BBB'')] [],
       Element (qname ''Conceptos'') []
         [Element (qname ''Concepto'')
            [(cps ''Descripcion'', cps ''Servicios de consultoria'')] []]]"

definition doc_nan :: element where
  "doc_nan =
    Element (qname ''Comprobante'')
      [(cps ''SubTotal'', cps ''100.00''), (cps ''Total'', cps ''nan''),
       (cps ''Fecha'', cps ''2024-01-15T09:00:00'')]
      [Element (qname ''Emisor'') [(cps ''Rfc'', cps ''XAXX010101000'')] [],
       Element (qname ''Receptor'') [(cps ''Rfc'', cps ''BBB020202BBB'')] [],
       Element (qname ''Conceptos'') []
         [Element (qname ''Concepto'')
            [(cps ''Descripcion'', cps ''Servicios de consultoria'')] []]]"

definition doc_bare :: element where
  "doc_bare =
    Element (qname ''Comprobante'') []
      [Element (qname ''Emisor'') [] [],
       Element (qname ''Receptor'') [] [],
       Element (qname ''Conceptos'') [] [Element (qname ''Concepto'') [] []]]"

definition doc_no_emisor :: element where
  "doc_no_emisor =
    Element (qname ''Comprobante'')
      [(cps ''SubTotal'', cps ''100.00''), (cps ''Total'', cps ''116.00'')]
      [Element (qname ''Receptor'') [(cps ''Rfc'', cps ''BBB020202BBB'')] [],
       Element (qname ''Conceptos'') []
         [Element (qname ''Concepto'') [(cps ''Descripcion'', cps ''Renta'')] []]]"

definition upload_of :: "element \<Rightarrow> (pystr \<times> element option) option" where
  "upload_of doc = Some (cps ''cfdi.xml'', Some doc)"

text \<open>
  Request sequences, all from the director's session: the upload of the attribute-less
  document, which is classified as generic; and the upload of the document without
  issuer under a file name that leaves the upload directory.
\<close>

definition generic_only :: "(pystr option \<times> element option request) list" where
  "generic_only = [(director, PostUploadCfdi (upload_of doc_bare))]"


text \<open>
  A history that leaves evidence in the store: the director uploads the invoice for
  services, and the accountant files a contract under the identifier it was given.
\<close>

definition evidence_history :: "(pystr option \<times> element option request) list" where
  "evidence_history =
    [(director, PostUploadCfdi (upload_of doc_services)),
     (Some (cps ''contador@arkanum''),
      PostUploadEvidence (Some (demo_uuids 0)) (Some (cps ''contrato.pdf'', None)))]"

text \<open>
  Inputs of the risk engine: an invoice of a given category, a registry result and an
  evidence record.
\<close>

definition cfdi_of_type :: "pystr \<Rightarrow> int cfdi_classified" where
  "cfdi_of_type ct =
    \<lparr>uuid = demo_uuids 0, emisor_rfc = None, receptor_rfc = None, concept = [],
     subtotal = 0, iva = 0, total = 0, fecha = None, concept_type = ct\<rparr>"

definition efos_flag :: "bool \<Rightarrow> efos_result" where
  "efos_flag b =
    \<lparr>rfc = None, is_efos = b, source = cps ''SAT/DOF (demo)'', checked_at = demo_clock 0\<rparr>"

definition demo_evidence :: evidence where
  "demo_evidence =
    \<lparr>ev_id = demo_uuids 1, ev_cfdi_uuid = demo_uuids 0, filename = cps ''contrato.pdf'',
     ev_hash = cps ''(digest)'', uploaded_at = demo_clock 1\<rparr>"

section \<open>Identifiers that are drawn later\<close>

text \<open>
  A client learns the identifier of an invoice only once it has been drawn, so the
  identifier that an evidence upload names is not one of the tokens that
  \<open>uuid4\<close> returns afterwards. \<open>not_drawn_later n s cu\<close> says so of the draws
  from the next one of \<open>s\<close> up to draw \<open>n\<close>; \<open>unanticipated n P reqs s\<close>
  says it of every evidence upload in a sequence of requests served from \<open>s\<close>, and
  \<open>evidence_known n s\<close> of the evidence already stored in \<open>s\<close>.
\<close>

definition not_drawn_later :: "nat \<Rightarrow> ('f, 'b) state \<Rightarrow> pystr \<Rightarrow> bool" where
  "not_drawn_later n s cu = list_all (\<lambda>k. uuid_src s k \<noteq> cu) [uuid_ix s..<n]"

definition evidence_known :: "nat \<Rightarrow> ('f, 'b) state \<Rightarrow> bool" where
  "evidence_known n s = list_all (\<lambda>e. not_drawn_later n s (ev_cfdi_uuid e)) (EVIDENCES s)"

fun unanticipated ::
  "nat \<Rightarrow> ('f, 'b) platform \<Rightarrow> (pystr option \<times> 'b request) list \<Rightarrow> ('f, 'b) state \<Rightarrow> bool"
  where
  "unanticipated n P [] s = True"
| "unanticipated n P ((cookie, r) # rs) s =
     ((case r of
         PostUploadEvidence (Some cu) f \<Rightarrow> not_drawn_later n s cu
       | _ \<Rightarrow> True)
      \<and> unanticipated n P rs (snd (handle P r (s\<lparr>session := cookie\<rparr>))))"

section \<open>Properties of the risk engine\<close>

lemma levels_distinct: "ALTO \<noteq> MEDIO" "ALTO \<noteq> BAJO" "MEDIO \<noteq> BAJO"
  by (simp_all add: ALTO_def MEDIO_def BAJO_def cps_def)

text \<open>
  C1. For every registry result, evidence list and classified invoice, the score is
  the sum of the weights of the rules that fire (60 for a listed issuer, 25 for an
  empty evidence list, 15 for the generic category), hence one of 0, 15, 25, 40, 60,
  75, 85, 100; the level is ALTO from 60 on, MEDIO from 30 to 59 and BAJO below 30, the
  thresholds themselves belonging to the higher tier; the three levels are different
  strings.
\<close>

theorem risk_engine_score_level:
  "score (risk_engine cfdi e evs) =
     (if is_efos e then 60 else 0) + (if evs = [] then 25 else 0)
       + (if concept_type cfdi = GENERICO then 15 else 0)
   \<and> score (risk_engine cfdi e evs) \<in> {0, 15, 25, 40, 60, 75, 85, 100}
   \<and> level (risk_engine cfdi e evs) =
       (if score (risk_engine cfdi e evs) \<ge> 60 then ALTO
        else if score (risk_engine cfdi e evs) \<ge> 30 then MEDIO else BAJO)
   \<and> distinct [ALTO, MEDIO, BAJO]"
  by (simp add: risk_engine_def Let_def levels_distinct)

theorem risk_engine_score_level_witness:
  "score (risk_engine (cfdi_of_type GENERICO) (efos_flag True) []) = 100
   \<and> level (risk_engine (cfdi_of_type GENERICO) (efos_flag True) []) = ALTO
   \<and> score (risk_engine (cfdi_of_type ARRENDAMIENTO) (efos_flag False) [demo_evidence]) = 0
   \<and> level (risk_engine (cfdi_of_type ARRENDAMIENTO) (efos_flag False) [demo_evidence]) = BAJO
   \<and> score (risk_engine (cfdi_of_type GENERICO) (efos_flag False) []) = 40
   \<and> level (risk_engine (cfdi_of_type GENERICO) (efos_flag False) []) = MEDIO"
  using risk_engine_score_level [of "cfdi_of_type GENERICO" "efos_flag True" "[]"]
    risk_engine_score_level [of "cfdi_of_type ARRENDAMIENTO" "efos_flag False" "[demo_evidence]"]
    risk_engine_score_level [of "cfdi_of_type GENERICO" "efos_flag False" "[]"]
  by (simp add: cfdi_of_type_def efos_flag_def ARRENDAMIENTO_def GENERICO_def cps_def)

text \<open>
  C8. The score is monotone in the trigger conditions: when every rule that fires on
  the first input also fires on the second, the first score is at most the second.
\<close>

theorem risk_engine_monotone:
  assumes "is_efos e1 \<longrightarrow> is_efos e2"
    and "evs1 = [] \<longrightarrow> evs2 = []"
    and "concept_type c1 = GENERICO \<longrightarrow> concept_type c2 = GENERICO"
  shows "score (risk_engine c1 e1 evs1) \<le> score (risk_engine c2 e2 evs2)"
  using assms by (simp add: risk_engine_def Let_def)

theorem risk_engine_monotone_witness:
  "\<not> is_efos (efos_flag False) \<and> is_efos (efos_flag True)
   \<and> [demo_evidence] \<noteq> []
   \<and> concept_type (cfdi_of_type ARRENDAMIENTO) \<noteq> GENERICO
   \<and> concept_type (cfdi_of_type GENERICO) = GENERICO
   \<and> score (risk_engine (cfdi_of_type ARRENDAMIENTO) (efos_flag False) [demo_evidence])
       \<le> score (risk_engine (cfdi_of_type GENERICO) (efos_flag True) [])"
proof -
  have a: "\<not> is_efos (efos_flag False)" "is_efos (efos_flag True)"
    by (simp_all add: efos_flag_def)
  have c: "concept_type (cfdi_of_type ARRENDAMIENTO) \<noteq> GENERICO"
    "concept_type (cfdi_of_type GENERICO) = GENERICO"
    by (simp_all add: cfdi_of_type_def ARRENDAMIENTO_def GENERICO_def cps_def)
  have "score (risk_engine (cfdi_of_type ARRENDAMIENTO) (efos_flag False) [demo_evidence])
       \<le> score (risk_engine (cfdi_of_type GENERICO) (efos_flag True) [])"
    by (rule risk_engine_monotone) (simp_all add: a c)
  with a c show ?thesis by simp
qed

text \<open>
  C9. The level is ALTO exactly when the registry flag is set: with the flag the score
  is at least 60, without it at most 25 + 15 = 40.
\<close>

theorem risk_engine_high_iff_efos:
  "(level (risk_engine cfdi e evs) = ALTO \<longleftrightarrow> is_efos e)
   \<and> (if is_efos e then 60 \<le> score (risk_engine cfdi e evs)
       else score (risk_engine cfdi e evs) \<le> 25 + 15)"
  using levels_distinct by (simp add: risk_engine_def Let_def)

theorem risk_engine_high_iff_efos_witness:
  "level (risk_engine (cfdi_of_type GENERICO) (efos_flag False) []) \<noteq> ALTO
   \<and> level (risk_engine (cfdi_of_type ARRENDAMIENTO) (efos_flag True) [demo_evidence]) = ALTO"
  using risk_engine_high_iff_efos [of "cfdi_of_type GENERICO" "efos_flag False" "[]"]
    risk_engine_high_iff_efos [of "cfdi_of_type ARRENDAMIENTO" "efos_flag True" "[demo_evidence]"]
  by (simp add: efos_flag_def)

section \<open>Properties of the classifier\<close>

lemma categories_distinct:
  "distinct [SERVICIOS_PROFESIONALES, ARRENDAMIENTO, PUBLICIDAD, GENERICO]"
  by (simp add: SERVICIOS_PROFESIONALES_def ARRENDAMIENTO_def PUBLICIDAD_def GENERICO_def
      cps_def)

lemma classify_concept_range:
  "classify_concept ucd t \<in> {SERVICIOS_PROFESIONALES, ARRENDAMIENTO, PUBLICIDAD, GENERICO}"
  by (simp add: classify_concept_def Let_def)

lemma taxonomy_lookup: "\<exists>tx. map_of TAXONOMY (classify_concept ucd t) = Some tx"
  using classify_concept_range [of ucd t] categories_distinct
  by (auto simp: TAXONOMY_def)

text \<open>The recursive test is containment as a contiguous run.\<close>

lemma str_in_sublist: "str_in sub s \<longleftrightarrow> sublist sub s"
  by (induction s) (auto simp: sublist_Cons_right)

lemma upper_append: "upper ucd (a @ b) = upper ucd a @ upper ucd b"
  by (simp add: upper_def)

lemma upper_ascii: "\<forall>c\<in>set t. c < 128 \<Longrightarrow> upper ucd t = map ascii_upper t"
  by (induction t) (auto simp: upper_def upper_cp_def ascii_upper_def)

lemma ci_substring_iff:
  "ci_substring kw t \<longleftrightarrow>
     (\<exists>pre w post. t = pre @ w @ post \<and> map ascii_upper w = map ascii_upper kw)"
proof
  assume "ci_substring kw t"
  then obtain i where i: "map ascii_upper (take (length kw) (drop i t)) = map ascii_upper kw"
    by (auto simp: ci_substring_def list_ex_iff)
  have "t = take i t @ take (length kw) (drop i t) @ drop (length kw) (drop i t)"
    by (metis append_take_drop_id)
  with i show "\<exists>pre w post. t = pre @ w @ post \<and> map ascii_upper w = map ascii_upper kw"
    by blast
next
  assume "\<exists>pre w post. t = pre @ w @ post \<and> map ascii_upper w = map ascii_upper kw"
  then obtain pre w post where t: "t = pre @ w @ post"
    and w: "map ascii_upper w = map ascii_upper kw" by blast
  from w have len: "length w = length kw" by (rule map_eq_imp_length_eq)
  have "take (length kw) (drop (length pre) t) = w" using t len by simp
  moreover have "length pre \<in> set [0..<Suc (length t)]" using t by simp
  ultimately have "\<exists>i\<in>set [0..<Suc (length t)].
      map ascii_upper (take (length kw) (drop i t)) = map ascii_upper kw"
    using w by blast
  then show "ci_substring kw t"
    by (simp only: ci_substring_def list_ex_iff)
qed

lemma sublist_map_iff:
  "sublist ys (map f xs) \<longleftrightarrow> (\<exists>pre w post. xs = pre @ w @ post \<and> map f w = ys)"
proof
  assume "sublist ys (map f xs)"
  then obtain ps ss where "map f xs = ps @ ys @ ss" by (auto simp: sublist_def)
  then obtain pre r where x1: "xs = pre @ r" and "map f r = ys @ ss"
    by (metis map_eq_append_conv)
  then obtain w post where "r = w @ post" and "map f w = ys"
    by (metis map_eq_append_conv)
  with x1 show "\<exists>pre w post. xs = pre @ w @ post \<and> map f w = ys" by blast
next
  assume "\<exists>pre w post. xs = pre @ w @ post \<and> map f w = ys"
  then show "sublist ys (map f xs)" by auto
qed

lemma ascii_upper_lt: "ascii_upper c < 128 \<Longrightarrow> c < 128"
  by (simp add: ascii_upper_def split: if_splits)

lemma upper_variant:
  assumes "map ascii_upper w = kw" and "\<forall>k\<in>set kw. k < 128"
  shows "upper ucd w = kw"
proof -
  have "\<forall>c\<in>set w. c < 128"
    using assms ascii_upper_lt by (metis (no_types, lifting) image_eqI list.set_map)
  then show ?thesis using assms(1) by (simp add: upper_ascii)
qed

lemma ci_substring_imp_in_upper:
  assumes "ci_substring kw t" and "map ascii_upper kw = kw" and "\<forall>k\<in>set kw. k < 128"
  shows "str_in kw (upper ucd t)"
proof -
  from assms(1,2) obtain pre w post where t: "t = pre @ w @ post"
    and w: "map ascii_upper w = kw" by (auto simp: ci_substring_iff)
  from w assms(3) have "upper ucd w = kw" by (rule upper_variant)
  with t show ?thesis by (simp add: str_in_sublist upper_append)
qed

lemma in_upper_ascii_iff:
  assumes "\<forall>c\<in>set t. c < 128" and "map ascii_upper kw = kw"
  shows "str_in kw (upper ucd t) \<longleftrightarrow> ci_substring kw t"
  using assms by (simp add: str_in_sublist upper_ascii sublist_map_iff ci_substring_iff)

lemma keywords_upper:
  "map ascii_upper (cps ''SERV'') = cps ''SERV''"
  "map ascii_upper (cps ''ARREND'') = cps ''ARREND''"
  "map ascii_upper (cps ''PUBLI'') = cps ''PUBLI''"
  "map ascii_upper (cps ''MARKET'') = cps ''MARKET''"
  by (simp_all add: cps_def ascii_upper_def)

lemma keywords_ascii:
  "\<forall>k\<in>set (cps ''SERV''). k < 128"
  "\<forall>k\<in>set (cps ''ARREND''). k < 128"
  "\<forall>k\<in>set (cps ''PUBLI''). k < 128"
  "\<forall>k\<in>set (cps ''MARKET''). k < 128"
  by (simp_all add: cps_def)

text \<open>
  C2. The classifier is a total function into the four categories (it has no failing
  branch and reads nothing but its argument, so equal texts get equal categories). It
  tests the upper-cased text for the keywords as contiguous runs, in the order services,
  leasing, advertising, else generic. On an ASCII text this is the case-insensitive
  substring match of the specification; on any text, one that contains a services
  keyword and an advertising keyword in any letter case is classified as services.
\<close>

theorem classify_concept_total_priority:
  "classify_concept ucd t \<in> {SERVICIOS_PROFESIONALES, ARRENDAMIENTO, PUBLICIDAD, GENERICO}
   \<and> (t = t' \<longrightarrow> classify_concept ucd t = classify_concept ucd t')
   \<and> classify_concept ucd t =
       (if sublist (cps ''SERV'') (upper ucd t) then SERVICIOS_PROFESIONALES
        else if sublist (cps ''ARREND'') (upper ucd t) then ARRENDAMIENTO
        else if sublist (cps ''PUBLI'') (upper ucd t) \<or> sublist (cps ''MARKET'') (upper ucd t)
        then PUBLICIDAD
        else GENERICO)
   \<and> ((\<forall>c\<in>set t. c < 128) \<longrightarrow> classify_concept ucd t = spec_classify t)
   \<and> (ci_substring (cps ''SERV'') t
        \<and> (ci_substring (cps ''PUBLI'') t \<or> ci_substring (cps ''MARKET'') t)
        \<longrightarrow> classify_concept ucd t = SERVICIOS_PROFESIONALES)"
proof (intro conjI impI)
  show "classify_concept ucd t \<in> {SERVICIOS_PROFESIONALES, ARRENDAMIENTO, PUBLICIDAD, GENERICO}"
    by (rule classify_concept_range)
next
  assume "t = t'"
  then show "classify_concept ucd t = classify_concept ucd t'" by simp
next
  show "classify_concept ucd t =
       (if sublist (cps ''SERV'') (upper ucd t) then SERVICIOS_PROFESIONALES
        else if sublist (cps ''ARREND'') (upper ucd t) then ARRENDAMIENTO
        else if sublist (cps ''PUBLI'') (upper ucd t) \<or> sublist (cps ''MARKET'') (upper ucd t)
        then PUBLICIDAD
        else GENERICO)"
    by (simp add: classify_concept_def Let_def str_in_sublist)
next
  assume "\<forall>c\<in>set t. c < 128"
  then show "classify_concept ucd t = spec_classify t"
    by (simp add: classify_concept_def spec_classify_def Let_def in_upper_ascii_iff
        keywords_upper)
next
  assume "ci_substring (cps ''SERV'') t
        \<and> (ci_substring (cps ''PUBLI'') t \<or> ci_substring (cps ''MARKET'') t)"
  then have "str_in (cps ''SERV'') (upper ucd t)"
    by (simp add: ci_substring_imp_in_upper keywords_upper keywords_ascii)
  then show "classify_concept ucd t = SERVICIOS_PROFESIONALES"
    by (simp add: classify_concept_def Let_def)
qed

theorem classify_concept_total_priority_witness:
  "list_all (\<lambda>c. c < 128) (cps ''Servicio de publicidad'')
   \<and> ci_substring (cps ''SERV'') (cps ''Servicio de publicidad'')
   \<and> ci_substring (cps ''PUBLI'') (cps ''Servicio de publicidad'')
   \<and> classify_concept (\<lambda>c. [c]) (cps ''Servicio de publicidad'') = SERVICIOS_PROFESIONALES
   \<and> spec_classify (cps ''Servicio de publicidad'') = SERVICIOS_PROFESIONALES"
proof -
  let ?t = "cps ''Servicio de publicidad''"
  note inst = classify_concept_total_priority [of "\<lambda>c. [c]" ?t ?t]
  have a: "\<forall>c\<in>set ?t. c < 128" by (simp add: cps_def)
  have b: "ci_substring (cps ''SERV'') ?t"
    by (simp add: ci_substring_def cps_def ascii_upper_def)
  have c: "ci_substring (cps ''PUBLI'') ?t"
    by (simp add: ci_substring_def cps_def ascii_upper_def)
  from inst b c have d: "classify_concept (\<lambda>c. [c]) ?t = SERVICIOS_PROFESIONALES" by blast
  from inst a have "classify_concept (\<lambda>c. [c]) ?t = spec_classify ?t" by blast
  with a b c d show ?thesis by (simp add: list_all_iff)
qed

section \<open>Properties of the parser and of the upload\<close>

lemma parse_cfdi_xml_Inr:
  assumes "parse_cfdi_xml P bytes s = (Inr d, s')"
  obtains root em re cs co where
    "et_parse P bytes = Inr root"
    "find_child root ''Emisor'' = Some em"
    "find_child root ''Receptor'' = Some re"
    "find_child root ''Conceptos'' = Some cs"
    "find_child cs ''Concepto'' = Some co"
    "float_attr P root ''SubTotal'' = Some (subtotal d)"
    "float_attr P root ''Total'' = Some (total d)"
    "d = \<lparr>uuid = uuid_src s (uuid_ix s),
          emisor_rfc = attrib_get em ''Rfc'',
          receptor_rfc = attrib_get re ''Rfc'',
          concept = (case attrib_get co ''Descripcion'' of None \<Rightarrow> [] | Some t \<Rightarrow> t),
          subtotal = subtotal d,
          iva = round2 P (float_sub P (total d) (subtotal d)),
          total = total d,
          fecha = attrib_get root ''Fecha''\<rparr>"
    "s' = s\<lparr>uuid_ix := uuid_ix s + 1\<rparr>"
  using assms
  by (auto simp: parse_cfdi_xml_def Let_def uuid4_def split: option.splits sum.splits)


lemma parse_cfdi_xml_Inl:
  assumes "parse_cfdi_xml P bytes s = (Inl e, s')"
  shows "et_parse P bytes = Inl e \<or> e \<in> {AttributeError, ValueError}"
    and "s' = s \<or> s' = s\<lparr>uuid_ix := uuid_ix s + 1\<rparr>"
  using assms
  by (auto simp: parse_cfdi_xml_def Let_def uuid4_def split: option.splits sum.splits)

text \<open>The parser reads nothing of the state but the token source, and writes nothing.\<close>

lemma parse_cfdi_xml_write_file:
  "parse_cfdi_xml P bytes (write_file P' path content s) =
     (fst (parse_cfdi_xml P bytes s), write_file P' path content (snd (parse_cfdi_xml P bytes s)))"
  by (simp add: parse_cfdi_xml_def write_file_def Let_def uuid4_def
      split: option.splits sum.splits)

lemma upload_cfdi_failed:
  assumes "parse_cfdi_xml P bytes s = (Inl e, s')"
  shows "upload_cfdi P (Some (fname, bytes)) s = (ServerError e, file_save P fname bytes s')"
  using assms by (simp add: upload_cfdi_def file_save_def parse_cfdi_xml_write_file)

lemma risk_engine_cong:
  "concept_type a = concept_type b \<Longrightarrow> risk_engine a e evs = risk_engine b e evs"
  by (simp add: risk_engine_def)

lemmas state_ops = uuid4_def now_def log_def save_db_def write_file_def file_save_def
  check_rfc_efos_def

lemma check_rfc_efos_fst:
  "clock_src s' = clock_src s \<Longrightarrow> clock_ix s' = clock_ix s \<Longrightarrow>
   fst (check_rfc_efos r s') = fst (check_rfc_efos r s)"
  by (simp add: check_rfc_efos_def now_def split_def)

text \<open>
  What a successful upload leaves behind: the record it appends, field by field, the
  alert store and the token source.
\<close>

lemma upload_cfdi_parsed:
  assumes p: "parse_cfdi_xml P bytes s = (Inr d, s1)"
  shows "\<exists>r. fst (upload_cfdi P (Some (fname, bytes)) s) = Redirect (cps ''dashboard'')
     \<and> CFDIS (snd (upload_cfdi P (Some (fname, bytes)) s)) = CFDIS s @ [r]
     \<and> EVIDENCES (snd (upload_cfdi P (Some (fname, bytes)) s)) = EVIDENCES s
     \<and> cfdi_data.truncate r = d
     \<and> concept_type r = classify_concept (ucd_upper P) (concept d)
     \<and> map_of TAXONOMY (concept_type r) = Some (taxonomy r)
     \<and> efos r = fst (check_rfc_efos (emisor_rfc d) s)
     \<and> memoria r = calc_memoria d (taxonomy r)
     \<and> razon_negocio r = business_reason_art5 P d
     \<and> riesgo r = risk_engine r (efos r)
          (filter (\<lambda>e. ev_cfdi_uuid e = uuid d) (EVIDENCES s))
     \<and> created_at r = clock_src s (clock_ix s + 1)
     \<and> ALERTS (snd (upload_cfdi P (Some (fname, bytes)) s)) =
         (if level (riesgo r) \<noteq> BAJO
          then ALERTS s @ [\<lparr>alert_id = uuid_src s (uuid_ix s + 1),
                            alert_cfdi_uuid = uuid d,
                            alert_level = level (riesgo r),
                            alert_reasons = reasons (riesgo r),
                            alert_ts = clock_src s (clock_ix s + 2)\<rparr>]
          else ALERTS s)
     \<and> uuid_src (snd (upload_cfdi P (Some (fname, bytes)) s)) = uuid_src s
     \<and> uuid_ix (snd (upload_cfdi P (Some (fname, bytes)) s)) =
         uuid_ix s + (if level (riesgo r) \<noteq> BAJO then 3 else 2)"
proof -
  from p have s1: "s1 = s\<lparr>uuid_ix := uuid_ix s + 1\<rparr>"
    by (rule parse_cfdi_xml_Inr)
  define s1' where "s1' = file_save P fname bytes s1"
  have p': "parse_cfdi_xml P bytes (file_save P fname bytes s) = (Inr d, s1')"
    by (simp add: file_save_def parse_cfdi_xml_write_file p s1'_def)
  have s1'f: "CFDIS s1' = CFDIS s" "EVIDENCES s1' = EVIDENCES s" "ALERTS s1' = ALERTS s"
    "uuid_src s1' = uuid_src s" "uuid_ix s1' = uuid_ix s + 1"
    "clock_src s1' = clock_src s" "clock_ix s1' = clock_ix s"
    by (simp_all add: s1'_def s1 file_save_def write_file_def)
  let ?ct = "classify_concept (ucd_upper P) (concept d)"
  obtain tx where tx: "map_of TAXONOMY ?ct = Some tx"
    using taxonomy_lookup by blast
  define data where "data = cfdi_data.extend d (cfdi_classified.fields ?ct)"
  define ef where "ef = fst (check_rfc_efos (emisor_rfc d) s1')"
  define rk where
    "rk = risk_engine data ef (filter (\<lambda>e. ev_cfdi_uuid e = uuid d) (EVIDENCES s1'))"
  define r where
    "r = cfdi_classified.extend data
           (cfdi_record.fields tx ef (calc_memoria data tx) (business_reason_art5 P data) rk
              (clock_src s1' (clock_ix s1' + 1)))"
  let ?res = "upload_cfdi P (Some (fname, bytes)) s"
  have unf: "?res =
      (let (ef', s2) = check_rfc_efos (emisor_rfc d) s1';
           (t, s3) = now s2;
           s3a = s3\<lparr>CFDIS := CFDIS s3 @ [r]\<rparr>;
           s4 = save_db P ''cfdis.json'' (CfdisJson (CFDIS s3a)) s3a;
           s5 = (if level rk \<noteq> BAJO
                 then let (i, s4a) = uuid4 s4;
                          (ts, s4b) = now s4a;
                          s4c = s4b\<lparr>ALERTS := ALERTS s4b @
                              [\<lparr>alert_id = i,
                                alert_cfdi_uuid = uuid d,
                                alert_level = level rk,
                                alert_reasons = reasons rk,
                                alert_ts = ts\<rparr>]\<rparr>
                      in save_db P ''alerts.json'' (AlertsJson (ALERTS s4c)) s4c
                 else s4)
       in (Redirect (cps ''dashboard''), log P (cps ''UPLOAD_CFDI'') fname s5))"
    unfolding upload_cfdi_def r_def rk_def ef_def data_def
    by (simp add: p' tx Let_def split_def check_rfc_efos_def now_def cfdi_data.defs)
  have 1: "fst ?res = Redirect (cps ''dashboard'')"
    unfolding unf by (simp add: Let_def split_def)
  have 2: "CFDIS (snd ?res) = CFDIS s @ [r]"
    unfolding unf by (simp add: Let_def split_def state_ops s1'f)
  have 4: "EVIDENCES (snd ?res) = EVIDENCES s"
    unfolding unf by (simp add: Let_def split_def state_ops s1'f)
  have 5: "ALERTS (snd ?res) =
         (if level rk \<noteq> BAJO
          then ALERTS s @ [\<lparr>alert_id = uuid_src s (uuid_ix s + 1),
                            alert_cfdi_uuid = uuid d,
                            alert_level = level rk,
                            alert_reasons = reasons rk,
                            alert_ts = clock_src s (clock_ix s + 2)\<rparr>]
          else ALERTS s)"
    unfolding unf by (simp add: Let_def split_def state_ops s1'f)
  have 8: "uuid_src (snd ?res) = uuid_src s"
    "uuid_ix (snd ?res) = uuid_ix s + (if level rk \<noteq> BAJO then 3 else 2)"
    unfolding unf by (simp_all add: Let_def split_def state_ops s1'f)
  have efs: "ef = fst (check_rfc_efos (emisor_rfc d) s)"
    unfolding ef_def by (rule check_rfc_efos_fst) (simp_all add: s1'f)
  have 6: "cfdi_data.truncate r = d" "concept_type r = ?ct" "taxonomy r = tx" "efos r = ef"
    "memoria r = calc_memoria d tx" "razon_negocio r = business_reason_art5 P d"
    "riesgo r = rk" "created_at r = clock_src s (clock_ix s + 1)"
    by (simp_all add: r_def data_def cfdi_data.defs cfdi_classified.defs cfdi_record.defs
        calc_memoria_def business_reason_art5_def s1'f)
  have "concept_type data = concept_type r"
    by (simp add: r_def data_def cfdi_data.defs cfdi_classified.defs cfdi_record.defs)
  then have 7: "rk = risk_engine r ef (filter (\<lambda>e. ev_cfdi_uuid e = uuid d) (EVIDENCES s))"
    unfolding rk_def s1'f by (rule risk_engine_cong)
  show ?thesis
    apply (rule exI[of _ r])
    apply (simp only: 1 2 4 6 tx efs[symmetric] simp_thms)
    apply (intro conjI)
       apply (rule 7)
      apply (rule 5)
     apply (rule 8)
    apply (rule 8)
    done
qed

lemma truncate_fields:
  "cfdi_data.truncate r = d \<Longrightarrow>
     uuid r = uuid d \<and> emisor_rfc r = emisor_rfc d \<and> receptor_rfc r = receptor_rfc d
     \<and> concept r = concept d \<and> subtotal r = subtotal d \<and> iva r = iva d
     \<and> total r = total d \<and> fecha r = fecha d"
  by (auto simp: cfdi_data.defs)


lemma upload_cfdi_not_forbidden: "fst (upload_cfdi P ff s) \<noteq> Forbidden"
proof
  assume a: "fst (upload_cfdi P ff s) = Forbidden"
  show False
  proof (cases ff)
    case None
    with a show ?thesis by (simp add: upload_cfdi_def)
  next
    case (Some f)
    obtain fname bytes where f: "f = (fname, bytes)" by (cases f)
    obtain res s1 where p: "parse_cfdi_xml P bytes s = (res, s1)"
      by (cases "parse_cfdi_xml P bytes s")
    show ?thesis
    proof (cases res)
      case (Inl e)
      with p have "parse_cfdi_xml P bytes s = (Inl e, s1)" by simp
      from upload_cfdi_failed [OF this, of fname] a Some f show ?thesis by simp
    next
      case (Inr d)
      with p have "parse_cfdi_xml P bytes s = (Inr d, s1)" by simp
      from upload_cfdi_parsed [OF this, of fname]
      have "fst (upload_cfdi P (Some (fname, bytes)) s) = Redirect (cps ''dashboard'')"
        by (elim exE conjE)
      with a Some f show ?thesis by simp
    qed
  qed
qed

lemma risk_level_range: "level (risk_engine c e evs) \<in> {ALTO, MEDIO, BAJO}"
  by (simp add: risk_engine_def Let_def)

lemma login_required_None:
  "login_required None fn s =
     (case session s of None \<Rightarrow> (Redirect (cps ''login''), s) | Some u \<Rightarrow> fn s)"
  by (simp add: login_required_def split: option.splits)

lemma log_fields:
  "CFDIS (log P a d s) = CFDIS s" "ALERTS (log P a d s) = ALERTS s"
  "EVIDENCES (log P a d s) = EVIDENCES s" "USERS (log P a d s) = USERS s"
  "session (log P a d s) = session s" "uuid_src (log P a d s) = uuid_src s"
  "uuid_ix (log P a d s) = uuid_ix s + 1"
  by (simp_all add: state_ops Let_def split_def)

lemma write_file_fields:
  "CFDIS (write_file P p c s) = CFDIS s" "ALERTS (write_file P p c s) = ALERTS s"
  "EVIDENCES (write_file P p c s) = EVIDENCES s" "LOGS (write_file P p c s) = LOGS s"
  "USERS (write_file P p c s) = USERS s" "session (write_file P p c s) = session s"
  "uuid_src (write_file P p c s) = uuid_src s" "uuid_ix (write_file P p c s) = uuid_ix s"
  "clock_src (write_file P p c s) = clock_src s" "clock_ix (write_file P p c s) = clock_ix s"
  by (simp_all add: write_file_def)

text \<open>
  What a request can do to the stores and to the token source: the source is read
  forward only; evidence is appended by an evidence upload, under the identifier it
  names; an invoice is appended by a successful upload, which draws its identifier and
  scores it against the evidence stored then, and which alone may append an alert.
\<close>

lemma upload_cfdi_effect:
  "uuid_src (snd (upload_cfdi P ff s)) = uuid_src s
   \<and> uuid_ix s \<le> uuid_ix (snd (upload_cfdi P ff s))
   \<and> EVIDENCES (snd (upload_cfdi P ff s)) = EVIDENCES s
   \<and> (CFDIS (snd (upload_cfdi P ff s)) = CFDIS s \<and> ALERTS (snd (upload_cfdi P ff s)) = ALERTS s
       \<or> (\<exists>r. CFDIS (snd (upload_cfdi P ff s)) = CFDIS s @ [r]
             \<and> riesgo r = risk_engine r (efos r)
                 (filter (\<lambda>e. ev_cfdi_uuid e = uuid_src s (uuid_ix s)) (EVIDENCES s))
             \<and> uuid_ix s < uuid_ix (snd (upload_cfdi P ff s))
             \<and> (ALERTS (snd (upload_cfdi P ff s)) = ALERTS s
                 \<or> (\<exists>a. ALERTS (snd (upload_cfdi P ff s)) = ALERTS s @ [a]
                       \<and> alert_level a \<in> {MEDIO, ALTO}))))"
proof (cases ff)
  case None
  then show ?thesis by (simp add: upload_cfdi_def)
next
  case (Some f)
  obtain fname bytes where f: "f = (fname, bytes)" by (cases f)
  obtain res s1 where p: "parse_cfdi_xml P bytes s = (res, s1)"
    by (cases "parse_cfdi_xml P bytes s")
  show ?thesis
  proof (cases res)
    case (Inl e)
    with p have q: "parse_cfdi_xml P bytes s = (Inl e, s1)" by simp
    from upload_cfdi_failed [OF q, of fname] parse_cfdi_xml_Inl(2) [OF q]
    show ?thesis unfolding Some f by (auto simp: file_save_def write_file_def)
  next
    case (Inr d)
    with p have q: "parse_cfdi_xml P bytes s = (Inr d, s1)" by simp
    let ?s' = "snd (upload_cfdi P (Some (fname, bytes)) s)"
    from q have u: "uuid d = uuid_src s (uuid_ix s)"
      by (elim parse_cfdi_xml_Inr) (metis cfdi_data.select_convs(1))
    from upload_cfdi_parsed [OF q, of fname]
    have "\<exists>r. CFDIS ?s' = CFDIS s @ [r]
      \<and> EVIDENCES ?s' = EVIDENCES s
      \<and> riesgo r = risk_engine r (efos r)
            (filter (\<lambda>e. ev_cfdi_uuid e = uuid d) (EVIDENCES s))
      \<and> ALERTS ?s' =
         (if level (riesgo r) \<noteq> BAJO
          then ALERTS s @ [\<lparr>alert_id = uuid_src s (uuid_ix s + 1),
                            alert_cfdi_uuid = uuid d,
                            alert_level = level (riesgo r),
                            alert_reasons = reasons (riesgo r),
                            alert_ts = clock_src s (clock_ix s + 2)\<rparr>]
          else ALERTS s)
      \<and> uuid_src ?s' = uuid_src s
      \<and> uuid_ix ?s' = uuid_ix s + (if level (riesgo r) \<noteq> BAJO then 3 else 2)"
      by (elim exE conjE, intro exI conjI) assumption+
    then obtain r where r: "CFDIS ?s' = CFDIS s @ [r]" "EVIDENCES ?s' = EVIDENCES s"
      "riesgo r = risk_engine r (efos r)
            (filter (\<lambda>e. ev_cfdi_uuid e = uuid d) (EVIDENCES s))"
      "ALERTS ?s' =
         (if level (riesgo r) \<noteq> BAJO
          then ALERTS s @ [\<lparr>alert_id = uuid_src s (uuid_ix s + 1),
                            alert_cfdi_uuid = uuid d,
                            alert_level = level (riesgo r),
                            alert_reasons = reasons (riesgo r),
                            alert_ts = clock_src s (clock_ix s + 2)\<rparr>]
          else ALERTS s)"
      "uuid_src ?s' = uuid_src s"
      "uuid_ix ?s' = uuid_ix s + (if level (riesgo r) \<noteq> BAJO then 3 else 2)"
      by (elim exE conjE)
    from r(6) have lt: "uuid_ix s < uuid_ix ?s'" by simp
    have "level (riesgo r) \<in> {ALTO, MEDIO, BAJO}"
      unfolding r(3) by (rule risk_level_range)
    with r(4) have al: "ALERTS ?s' = ALERTS s
        \<or> (\<exists>a. ALERTS ?s' = ALERTS s @ [a] \<and> alert_level a \<in> {MEDIO, ALTO})"
      by auto
    from r(1,2,3,5) lt al u show ?thesis unfolding Some f by auto
  qed
qed

lemma upload_evidence_effect:
  "uuid_src (snd (upload_evidence P cu ff s)) = uuid_src s"
  "uuid_ix s \<le> uuid_ix (snd (upload_evidence P cu ff s))"
  "CFDIS (snd (upload_evidence P cu ff s)) = CFDIS s"
  "ALERTS (snd (upload_evidence P cu ff s)) = ALERTS s"
  "EVIDENCES (snd (upload_evidence P cu ff s)) = EVIDENCES s
   \<or> (\<exists>c e. cu = Some c \<and> EVIDENCES (snd (upload_evidence P cu ff s)) = EVIDENCES s @ [e]
         \<and> ev_cfdi_uuid e = c)"
  by (simp_all add: upload_evidence_def state_ops Let_def split_def split: option.splits)

lemma other_routes_effect:
  "uuid_src (snd (home s)) = uuid_src s" "uuid_ix s \<le> uuid_ix (snd (home s))"
  "CFDIS (snd (home s)) = CFDIS s" "ALERTS (snd (home s)) = ALERTS s"
  "EVIDENCES (snd (home s)) = EVIDENCES s"
  "uuid_src (snd (login P em pw s)) = uuid_src s" "uuid_ix s \<le> uuid_ix (snd (login P em pw s))"
  "CFDIS (snd (login P em pw s)) = CFDIS s" "ALERTS (snd (login P em pw s)) = ALERTS s"
  "EVIDENCES (snd (login P em pw s)) = EVIDENCES s"
  "uuid_src (snd (logout P s)) = uuid_src s" "uuid_ix s \<le> uuid_ix (snd (logout P s))"
  "CFDIS (snd (logout P s)) = CFDIS s" "ALERTS (snd (logout P s)) = ALERTS s"
  "EVIDENCES (snd (logout P s)) = EVIDENCES s"
  "uuid_src (snd (dashboard s)) = uuid_src s" "uuid_ix s \<le> uuid_ix (snd (dashboard s))"
  "CFDIS (snd (dashboard s)) = CFDIS s" "ALERTS (snd (dashboard s)) = ALERTS s"
  "EVIDENCES (snd (dashboard s)) = EVIDENCES s"
  "uuid_src (snd (export_isr P s)) = uuid_src s" "uuid_ix s \<le> uuid_ix (snd (export_isr P s))"
  "CFDIS (snd (export_isr P s)) = CFDIS s" "ALERTS (snd (export_isr P s)) = ALERTS s"
  "EVIDENCES (snd (export_isr P s)) = EVIDENCES s"
  "uuid_src (snd (export_iva P s)) = uuid_src s" "uuid_ix s \<le> uuid_ix (snd (export_iva P s))"
  "CFDIS (snd (export_iva P s)) = CFDIS s" "ALERTS (snd (export_iva P s)) = ALERTS s"
  "EVIDENCES (snd (export_iva P s)) = EVIDENCES s"
  "uuid_src (snd (export_json P s)) = uuid_src s" "uuid_ix s \<le> uuid_ix (snd (export_json P s))"
  "CFDIS (snd (export_json P s)) = CFDIS s" "ALERTS (snd (export_json P s)) = ALERTS s"
  "EVIDENCES (snd (export_json P s)) = EVIDENCES s"
  by (simp_all add: home_def login_def logout_def dashboard_def export_isr_def export_iva_def
      export_json_def log_fields write_file_fields Let_def split: option.splits)

lemma handle_effect:
  "uuid_src (snd (handle P r s)) = uuid_src s
   \<and> uuid_ix s \<le> uuid_ix (snd (handle P r s))
   \<and> (EVIDENCES (snd (handle P r s)) = EVIDENCES s
       \<or> (\<exists>cu f e. r = PostUploadEvidence (Some cu) f
             \<and> EVIDENCES (snd (handle P r s)) = EVIDENCES s @ [e] \<and> ev_cfdi_uuid e = cu))
   \<and> (CFDIS (snd (handle P r s)) = CFDIS s \<and> ALERTS (snd (handle P r s)) = ALERTS s
       \<or> (\<exists>c. CFDIS (snd (handle P r s)) = CFDIS s @ [c]
             \<and> riesgo c = risk_engine c (efos c)
                 (filter (\<lambda>e. ev_cfdi_uuid e = uuid_src s (uuid_ix s)) (EVIDENCES s))
             \<and> uuid_ix s < uuid_ix (snd (handle P r s))
             \<and> (ALERTS (snd (handle P r s)) = ALERTS s
                 \<or> (\<exists>a. ALERTS (snd (handle P r s)) = ALERTS s @ [a]
                       \<and> alert_level a \<in> {MEDIO, ALTO}))))"
proof (cases r)
  case (PostUploadCfdi f)
  show ?thesis
  proof (cases "session s")
    case None
    with PostUploadCfdi show ?thesis by (simp add: handle_def login_required_None)
  next
    case (Some u)
    with PostUploadCfdi have "handle P r s = upload_cfdi P f s"
      by (simp add: handle_def login_required_None)
    with upload_cfdi_effect [where P = P and ff = f and s = s] show ?thesis by simp
  qed
next
  case (PostUploadEvidence cu f)
  show ?thesis
  proof (cases "session s")
    case None
    with PostUploadEvidence show ?thesis by (simp add: handle_def login_required_None)
  next
    case (Some u)
    then have h: "handle P (PostUploadEvidence cu f) s = upload_evidence P cu f s"
      by (simp add: handle_def login_required_None)
    from upload_evidence_effect [where P = P and cu = cu and ff = f and s = s] show ?thesis
      unfolding PostUploadEvidence h by auto
  qed
qed (simp_all add: handle_def login_required_None other_routes_effect split: option.splits)


lemma run_tokens:
  "uuid_src (run P reqs s) = uuid_src s \<and> uuid_ix s \<le> uuid_ix (run P reqs s)"
proof (induction reqs arbitrary: s)
  case Nil
  then show ?case by simp
next
  case (Cons q reqs)
  obtain cookie r where q: "q = (cookie, r)" by (cases q)
  let ?s = "s\<lparr>session := cookie\<rparr>"
  from handle_effect [where P = P and r = r and s = ?s]
  have "uuid_src (snd (handle P r ?s)) = uuid_src s"
    "uuid_ix s \<le> uuid_ix (snd (handle P r ?s))" by simp_all
  with Cons.IH [of "snd (handle P r ?s)"] show ?case unfolding q by simp
qed

lemma not_drawn_later_mono:
  "uuid_src s' = uuid_src s \<Longrightarrow> uuid_ix s \<le> uuid_ix s' \<Longrightarrow>
   not_drawn_later n s cu \<Longrightarrow> not_drawn_later n s' cu"
  by (auto simp: not_drawn_later_def list_all_iff)

lemma evidence_known_filter:
  assumes "evidence_known n s" and "uuid_ix s < n"
  shows "filter (\<lambda>e. ev_cfdi_uuid e = uuid_src s (uuid_ix s)) (EVIDENCES s) = []"
proof -
  from assms(2) have "uuid_ix s \<in> {uuid_ix s..<n}" by simp
  with assms(1) have "\<forall>e\<in>set (EVIDENCES s). uuid_src s (uuid_ix s) \<noteq> ev_cfdi_uuid e"
    unfolding evidence_known_def not_drawn_later_def list_all_iff by auto
  then show ?thesis by (auto simp: filter_empty_conv)
qed

lemma risk_engine_no_evidence:
  "25 \<le> score (risk_engine c e []) \<and> reason_no_evidence \<in> set (reasons (risk_engine c e []))"
  by (simp add: risk_engine_def Let_def)

text \<open>
  Over a sequence of requests in which no evidence upload names a token that is drawn
  later, no stored evidence is filed under a token that is still to be drawn, and every
  invoice has been scored against an empty evidence list.
\<close>

lemma run_no_evidence:
  assumes "uuid_ix (run P reqs s) \<le> n"
    and "unanticipated n P reqs s"
    and "evidence_known n s"
    and "\<forall>c\<in>set (CFDIS s). riesgo c = risk_engine c (efos c) []"
  shows "evidence_known n (run P reqs s)
    \<and> (\<forall>c\<in>set (CFDIS (run P reqs s)). riesgo c = risk_engine c (efos c) [])"
  using assms
proof (induction reqs arbitrary: s)
  case Nil
  then show ?case by simp
next
  case (Cons q reqs)
  obtain cookie r where q: "q = (cookie, r)" by (cases q)
  let ?s = "s\<lparr>session := cookie\<rparr>"
  let ?s' = "snd (handle P r ?s)"
  note eff = handle_effect [where P = P and r = r and s = ?s]
  from eff have src: "uuid_src ?s' = uuid_src s" and ix: "uuid_ix s \<le> uuid_ix ?s'"
    by simp_all
  from Cons.prems(1) have fin: "uuid_ix (run P reqs ?s') \<le> n" unfolding q by simp
  from Cons.prems(2) have una: "unanticipated n P reqs ?s'"
    and ev: "\<And>cu f. r = PostUploadEvidence (Some cu) f \<Longrightarrow> not_drawn_later n s cu"
    unfolding q by (auto simp: not_drawn_later_def)
  have known: "evidence_known n ?s'"
    unfolding evidence_known_def list_all_iff
  proof
    fix e assume e: "e \<in> set (EVIDENCES ?s')"
    from eff have "EVIDENCES ?s' = EVIDENCES s
       \<or> (\<exists>cu f e'. r = PostUploadEvidence (Some cu) f
             \<and> EVIDENCES ?s' = EVIDENCES s @ [e'] \<and> ev_cfdi_uuid e' = cu)" by simp
    with e ev Cons.prems(3) have "not_drawn_later n s (ev_cfdi_uuid e)"
      by (auto simp: evidence_known_def list_all_iff)
    with src ix show "not_drawn_later n ?s' (ev_cfdi_uuid e)"
      by (rule not_drawn_later_mono)
  qed
  have good: "\<forall>c\<in>set (CFDIS ?s'). riesgo c = risk_engine c (efos c) []"
  proof
    fix c assume c: "c \<in> set (CFDIS ?s')"
    from eff have "CFDIS ?s' = CFDIS s
       \<or> (\<exists>c'. CFDIS ?s' = CFDIS s @ [c']
             \<and> riesgo c' = risk_engine c' (efos c')
                 (filter (\<lambda>e. ev_cfdi_uuid e = uuid_src s (uuid_ix s)) (EVIDENCES s))
             \<and> uuid_ix s < uuid_ix ?s')" by auto
    then show "riesgo c = risk_engine c (efos c) []"
    proof
      assume "CFDIS ?s' = CFDIS s"
      with c Cons.prems(4) show ?thesis by simp
    next
      assume "\<exists>c'. CFDIS ?s' = CFDIS s @ [c']
             \<and> riesgo c' = risk_engine c' (efos c')
                 (filter (\<lambda>e. ev_cfdi_uuid e = uuid_src s (uuid_ix s)) (EVIDENCES s))
             \<and> uuid_ix s < uuid_ix ?s'"
      then obtain c' where c': "CFDIS ?s' = CFDIS s @ [c']"
        "riesgo c' = risk_engine c' (efos c')
                 (filter (\<lambda>e. ev_cfdi_uuid e = uuid_src s (uuid_ix s)) (EVIDENCES s))"
        "uuid_ix s < uuid_ix ?s'" by blast
      from run_tokens [of P reqs ?s'] fin c'(3) have "uuid_ix s < n" by simp
      from evidence_known_filter [OF Cons.prems(3) this] c'(2)
      have "riesgo c' = risk_engine c' (efos c') []" by simp
      with c c'(1) Cons.prems(4) show ?thesis by auto
    qed
  qed
  from Cons.IH [OF fin una known good] show ?case unfolding q by simp
qed

section \<open>The model on the concrete inputs\<close>

lemmas doc_defs = doc_services_def doc_nan_def doc_bare_def doc_no_emisor_def qname_def
  cfdi_ns_def cps_def find_child_def attrib_get_def float_attr_def

lemmas demo_float_defs = demo_float_def thousandths_of_str_def digits_value_def demo_sub_def
  demo_round2_def demo_eq_def demo_parse_def

lemma demo_platform_fields:
  "py_float demo_platform = demo_float" "float_zero demo_platform = Some 0"
  "float_sub demo_platform = demo_sub" "round2 demo_platform = demo_round2"
  "float_eq demo_platform = demo_eq" "ucd_upper demo_platform = (\<lambda>c. [c])"
  "et_parse demo_platform = demo_parse" "resolve demo_platform = demo_resolve"
  by (simp_all add: demo_platform_def)

lemma demo_state_fields:
  "CFDIS demo_state = []" "EVIDENCES demo_state = []" "ALERTS demo_state = []"
  "LOGS demo_state = []" "session demo_state = None" "USERS demo_state = default_users"
  "uuid_src demo_state = demo_uuids" "uuid_ix demo_state = 0"
  "clock_src demo_state = demo_clock" "clock_ix demo_state = 0"
  by (simp_all add: demo_state_def init_state_def Let_def save_db_def write_file_def)

lemma parse_doc_services:
  "parse_cfdi_xml demo_platform (Some doc_services) s =
     (Inr \<lparr>uuid = uuid_src s (uuid_ix s),
           emisor_rfc = Some (cps ''XAXX010101000''),
           receptor_rfc = Some (cps ''BBB020202BBB''),
           concept = cps ''Servicios de consultoria'',
           subtotal = Some 100000, iva = Some 16000, total = Some 116004,
           fecha = Some (cps ''2024-01-15T09:00:00'')\<rparr>,
      s\<lparr>uuid_ix := uuid_ix s + 1\<rparr>)"
  by (simp add: parse_cfdi_xml_def doc_defs demo_platform_fields demo_float_defs uuid4_def)

lemma parse_doc_nan:
  "parse_cfdi_xml demo_platform (Some doc_nan) s =
     (Inr \<lparr>uuid = uuid_src s (uuid_ix s),
           emisor_rfc = Some (cps ''XAXX010101000''),
           receptor_rfc = Some (cps ''BBB020202BBB''),
           concept = cps ''Servicios de consultoria'',
           subtotal = Some 100000, iva = None, total = None,
           fecha = Some (cps ''2024-01-15T09:00:00'')\<rparr>,
      s\<lparr>uuid_ix := uuid_ix s + 1\<rparr>)"
  by (simp add: parse_cfdi_xml_def doc_defs demo_platform_fields demo_float_defs uuid4_def)

lemma parse_doc_bare:
  "parse_cfdi_xml demo_platform (Some doc_bare) s =
     (Inr \<lparr>uuid = uuid_src s (uuid_ix s), emisor_rfc = None, receptor_rfc = None,
           concept = [], subtotal = Some 0, iva = Some 0, total = Some 0, fecha = None\<rparr>,
      s\<lparr>uuid_ix := uuid_ix s + 1\<rparr>)"
  by (simp add: parse_cfdi_xml_def doc_defs demo_platform_fields demo_float_defs uuid4_def)


lemma classify_services:
  "classify_concept (\<lambda>c. [c]) (cps ''Servicios de consultoria'') = SERVICIOS_PROFESIONALES"
  by (simp add: classify_concept_def upper_def upper_cp_def cps_def)

lemma classify_empty: "classify_concept ucd [] = GENERICO"
  by (simp add: classify_concept_def upper_def cps_def)

lemma taxonomy_generic_flags:
  "map_of TAXONOMY GENERICO = Some tx \<Longrightarrow> \<not> isr_deductible tx \<and> \<not> iva_creditable tx"
  using categories_distinct by (auto simp: TAXONOMY_def)

lemma services_not_listed:
  "\<not> is_efos (fst (check_rfc_efos (Some (cps ''XAXX010101000'')) s))"
  "\<not> is_efos (fst (check_rfc_efos None s))"
  by (simp_all add: check_rfc_efos_def now_def split_def demo_efos_def cps_def)


lemma upload_cfdi_parsedE:
  assumes "parse_cfdi_xml P bytes s = (Inr d, s1)"
  obtains r where
    "fst (upload_cfdi P (Some (fname, bytes)) s) = Redirect (cps ''dashboard'')"
    "CFDIS (snd (upload_cfdi P (Some (fname, bytes)) s)) = CFDIS s @ [r]"
    "EVIDENCES (snd (upload_cfdi P (Some (fname, bytes)) s)) = EVIDENCES s"
    "cfdi_data.truncate r = d"
    "concept_type r = classify_concept (ucd_upper P) (concept d)"
    "map_of TAXONOMY (concept_type r) = Some (taxonomy r)"
    "efos r = fst (check_rfc_efos (emisor_rfc d) s)"
    "memoria r = calc_memoria d (taxonomy r)"
    "razon_negocio r = business_reason_art5 P d"
    "riesgo r = risk_engine r (efos r)
          (filter (\<lambda>e. ev_cfdi_uuid e = uuid d) (EVIDENCES s))"
    "created_at r = clock_src s (clock_ix s + 1)"
    "ALERTS (snd (upload_cfdi P (Some (fname, bytes)) s)) =
         (if level (riesgo r) \<noteq> BAJO
          then ALERTS s @ [\<lparr>alert_id = uuid_src s (uuid_ix s + 1),
                            alert_cfdi_uuid = uuid d,
                            alert_level = level (riesgo r),
                            alert_reasons = reasons (riesgo r),
                            alert_ts = clock_src s (clock_ix s + 2)\<rparr>]
          else ALERTS s)"
    "uuid_src (snd (upload_cfdi P (Some (fname, bytes)) s)) = uuid_src s"
    "uuid_ix (snd (upload_cfdi P (Some (fname, bytes)) s)) =
         uuid_ix s + (if level (riesgo r) \<noteq> BAJO then 3 else 2)"
  using upload_cfdi_parsed [OF assms, of fname] by (elim exE conjE) (rule that)

lemma data_paths:
  "path_join DATA_DIR (cps ''cedula_isr.csv'') = cps ''data/cedula_isr.csv''"
  "path_join DATA_DIR (cps ''cedula_iva.csv'') = cps ''data/cedula_iva.csv''"
  "path_join DATA_DIR (cps ''arkanum_export.json'') = cps ''data/arkanum_export.json''"
  by (simp_all add: path_join_def DATA_DIR_def cps_def)

lemma handler_not_forbidden:
  "fst (home s) \<noteq> Forbidden" "fst (login P em pw s) \<noteq> Forbidden"
  "fst (logout P s) \<noteq> Forbidden"
  "fst (dashboard s) \<noteq> Forbidden" "fst (upload_evidence P cu f s) \<noteq> Forbidden"
  "fst (export_isr P s) \<noteq> Forbidden" "fst (export_iva P s) \<noteq> Forbidden"
  "fst (export_json P s) \<noteq> Forbidden"
  by (simp_all add: home_def login_def logout_def dashboard_def upload_evidence_def
      export_isr_def export_iva_def export_json_def Let_def split_def split: option.splits)

lemma upload_evidence_state:
  "EVIDENCES (snd (upload_evidence P (Some cu) (Some (fname, bytes)) s)) =
     EVIDENCES s @ [\<lparr>ev_id = uuid_src s (uuid_ix s), ev_cfdi_uuid = cu, filename = fname,
                      ev_hash = sha256_hex P bytes, uploaded_at = clock_src s (clock_ix s)\<rparr>]"
  "CFDIS (snd (upload_evidence P (Some cu) (Some (fname, bytes)) s)) = CFDIS s"
  "uuid_src (snd (upload_evidence P (Some cu) (Some (fname, bytes)) s)) = uuid_src s"
  "uuid_ix (snd (upload_evidence P (Some cu) (Some (fname, bytes)) s)) = uuid_ix s + 2"
  by (simp_all add: upload_evidence_def state_ops Let_def split_def)

lemma demo_uuids_later: "0 < k \<Longrightarrow> k < 100 \<Longrightarrow> demo_uuids k \<noteq> demo_uuids 0"
  by (auto simp: demo_uuids_def)

text \<open>The store after the attribute-less document has been uploaded.\<close>

lemma generic_only_state:
  "\<exists>r. CFDIS (run demo_platform generic_only demo_state) = [r]
     \<and> uuid r = demo_uuids 0
     \<and> emisor_rfc r = None \<and> receptor_rfc r = None
     \<and> subtotal r = Some 0 \<and> iva r = Some 0 \<and> total r = Some 0
     \<and> concept_type r = GENERICO
     \<and> \<not> isr_deductible (taxonomy r) \<and> \<not> iva_creditable (taxonomy r)
     \<and> riesgo r = \<lparr>score = 40, level = MEDIO,
                     reasons = [reason_no_evidence, reason_generic]\<rparr>
     \<and> ALERTS (run demo_platform generic_only demo_state) =
         [\<lparr>alert_id = demo_uuids 1, alert_cfdi_uuid = demo_uuids 0, alert_level = MEDIO,
           alert_reasons = [reason_no_evidence, reason_generic],
           alert_ts = demo_clock 2\<rparr>]"
proof -
  define sa where "sa = demo_state\<lparr>session := director\<rparr>"
  define sd where "sd = snd (upload_cfdi demo_platform (Some (cps ''cfdi.xml'', Some doc_bare)) sa)"
  have run: "run demo_platform generic_only demo_state = sd"
    by (simp add: generic_only_def handle_def login_required_None director_def
        upload_of_def sa_def sd_def)
  have sa: "EVIDENCES sa = []" "CFDIS sa = []" "ALERTS sa = []" "uuid_ix sa = 0"
    "uuid_src sa = demo_uuids" "clock_ix sa = 0" "clock_src sa = demo_clock"
    by (simp_all add: sa_def demo_state_fields)
  let ?d = "\<lparr>uuid = demo_uuids 0, emisor_rfc = None, receptor_rfc = None,
           concept = [], subtotal = Some (0 :: int), iva = Some 0, total = Some 0,
           fecha = None\<rparr>"
  have p: "parse_cfdi_xml demo_platform (Some doc_bare) sa =
      (Inr ?d, sa\<lparr>uuid_ix := uuid_ix sa + 1\<rparr>)"
    using parse_doc_bare [of sa] by (simp add: sa)
  from p obtain r where r: "CFDIS sd = CFDIS sa @ [r]"
    "cfdi_data.truncate r = ?d"
    "concept_type r = classify_concept (ucd_upper demo_platform) (concept ?d)"
    "map_of TAXONOMY (concept_type r) = Some (taxonomy r)"
    "efos r = fst (check_rfc_efos (emisor_rfc ?d) sa)"
    "riesgo r = risk_engine r (efos r)
            (filter (\<lambda>e. ev_cfdi_uuid e = uuid ?d) (EVIDENCES sa))"
    "ALERTS sd =
         (if level (riesgo r) \<noteq> BAJO
          then ALERTS sa @ [\<lparr>alert_id = uuid_src sa (uuid_ix sa + 1),
                            alert_cfdi_uuid = uuid ?d,
                            alert_level = level (riesgo r),
                            alert_reasons = reasons (riesgo r),
                            alert_ts = clock_src sa (clock_ix sa + 2)\<rparr>]
          else ALERTS sa)"
    unfolding sd_def by (rule upload_cfdi_parsedE)
  from truncate_fields [OF r(2)]
  have u: "uuid r = demo_uuids 0" "emisor_rfc r = None" "receptor_rfc r = None"
    "subtotal r = Some 0" "iva r = Some 0" "total r = Some 0" by simp_all
  have ct: "concept_type r = GENERICO" by (simp add: r(3) classify_empty)
  have tx: "\<not> isr_deductible (taxonomy r)" "\<not> iva_creditable (taxonomy r)"
    using taxonomy_generic_flags [OF r(4) [unfolded ct]] by simp_all
  have ef: "\<not> is_efos (efos r)"
    by (simp add: r(5) services_not_listed)
  have rk: "riesgo r = \<lparr>score = 40, level = MEDIO,
      reasons = [reason_no_evidence, reason_generic]\<rparr>"
    by (simp add: r(6) sa risk_engine_def Let_def ct ef)
  have al: "ALERTS sd = [\<lparr>alert_id = demo_uuids 1, alert_cfdi_uuid = demo_uuids 0,
      alert_level = MEDIO, alert_reasons = [reason_no_evidence, reason_generic],
      alert_ts = demo_clock 2\<rparr>]"
    using levels_distinct by (simp add: r(7) rk sa numeral_2_eq_2)
  show ?thesis
    unfolding run by (rule exI [of _ r]) (simp add: r(1) sa u ct tx rk al)
qed

section \<open>Parsed amounts and rejected documents\<close>

text \<open>
  C3, as amended. When a document parses, the tax amount of the parsed record is what
  \<open>round(total - subtotal, 2)\<close> returned; the comparison \<open>==\<close> of the tax
  amount with that result holds exactly when the tax amount compares equal to itself,
  that is, when it is not a NaN. Subtotal and total are the floats of the root
  attributes \<open>SubTotal\<close> and \<open>Total\<close>, and the record that the upload stores
  carries the three amounts unchanged, in its own fields and in its memo.
\<close>

theorem parse_cfdi_xml_amounts:
  assumes "parse_cfdi_xml P bytes s = (Inr d, s1)"
  shows "iva d = round2 P (float_sub P (total d) (subtotal d))
    \<and> (float_eq P (iva d) (round2 P (float_sub P (total d) (subtotal d)))
         \<longleftrightarrow> float_eq P (iva d) (iva d))
    \<and> (\<exists>root. et_parse P bytes = Inr root
          \<and> float_attr P root ''SubTotal'' = Some (subtotal d)
          \<and> float_attr P root ''Total'' = Some (total d)
          \<and> (\<forall>v. attrib_get root ''SubTotal'' = Some v \<longrightarrow> py_float P v = Some (subtotal d))
          \<and> (\<forall>v. attrib_get root ''Total'' = Some v \<longrightarrow> py_float P v = Some (total d))
          \<and> (attrib_get root ''SubTotal'' = None \<longrightarrow> subtotal d = float_zero P)
          \<and> (attrib_get root ''Total'' = None \<longrightarrow> total d = float_zero P))
    \<and> (\<exists>r. CFDIS (snd (upload_cfdi P (Some (fname, bytes)) s)) = CFDIS s @ [r]
          \<and> subtotal r = subtotal d \<and> total r = total d \<and> iva r = iva d
          \<and> iva r = round2 P (float_sub P (total r) (subtotal r))
          \<and> base (memoria r) = subtotal r \<and> mem_iva (memoria r) = iva r
          \<and> mem_total (memoria r) = total r)"
proof (intro conjI)
  from assms obtain root where root: "et_parse P bytes = Inr root"
    "float_attr P root ''SubTotal'' = Some (subtotal d)"
    "float_attr P root ''Total'' = Some (total d)"
    and d: "iva d = round2 P (float_sub P (total d) (subtotal d))"
    by (elim parse_cfdi_xml_Inr) (metis cfdi_data.select_convs(6))
  show "iva d = round2 P (float_sub P (total d) (subtotal d))" by (rule d)
  show "float_eq P (iva d) (round2 P (float_sub P (total d) (subtotal d)))
         \<longleftrightarrow> float_eq P (iva d) (iva d)"
    by (simp only: d [symmetric])
  from root show "\<exists>root. et_parse P bytes = Inr root
          \<and> float_attr P root ''SubTotal'' = Some (subtotal d)
          \<and> float_attr P root ''Total'' = Some (total d)
          \<and> (\<forall>v. attrib_get root ''SubTotal'' = Some v \<longrightarrow> py_float P v = Some (subtotal d))
          \<and> (\<forall>v. attrib_get root ''Total'' = Some v \<longrightarrow> py_float P v = Some (total d))
          \<and> (attrib_get root ''SubTotal'' = None \<longrightarrow> subtotal d = float_zero P)
          \<and> (attrib_get root ''Total'' = None \<longrightarrow> total d = float_zero P)"
    by (auto simp: float_attr_def)
  from assms obtain r where
    r: "CFDIS (snd (upload_cfdi P (Some (fname, bytes)) s)) = CFDIS s @ [r]"
      "cfdi_data.truncate r = d" "memoria r = calc_memoria d (taxonomy r)"
    by (rule upload_cfdi_parsedE)
  from truncate_fields [OF r(2)]
  have f: "subtotal r = subtotal d" "iva r = iva d" "total r = total d" by simp_all
  with r d show "\<exists>r. CFDIS (snd (upload_cfdi P (Some (fname, bytes)) s)) = CFDIS s @ [r]
          \<and> subtotal r = subtotal d \<and> total r = total d \<and> iva r = iva d
          \<and> iva r = round2 P (float_sub P (total r) (subtotal r))
          \<and> base (memoria r) = subtotal r \<and> mem_iva (memoria r) = iva r
          \<and> mem_total (memoria r) = total r"
    by (auto simp: calc_memoria_def)
qed

theorem parse_cfdi_xml_amounts_witness:
  "parse_cfdi_xml demo_platform (Some doc_services) demo_state =
     (Inr \<lparr>uuid = demo_uuids 0,
           emisor_rfc = Some (cps ''XAXX010101000''),
           receptor_rfc = Some (cps ''BBB020202BBB''),
           concept = cps ''Servicios de consultoria'',
           subtotal = Some 100000, iva = Some 16000, total = Some 116004,
           fecha = Some (cps ''2024-01-15T09:00:00'')\<rparr>,
      demo_state\<lparr>uuid_ix := 1\<rparr>)
   \<and> float_sub demo_platform (Some 116004) (Some 100000) = Some 16004
   \<and> round2 demo_platform (Some 16004) = Some 16000
   \<and> float_eq demo_platform (Some 16000)
        (round2 demo_platform (float_sub demo_platform (Some 116004) (Some 100000)))
   \<and> attrib_get doc_services ''SubTotal'' = Some (cps ''100.00'')
   \<and> py_float demo_platform (cps ''100.00'') = Some (Some 100000)
   \<and> attrib_get doc_services ''Total'' = Some (cps ''116.004'')
   \<and> py_float demo_platform (cps ''116.004'') = Some (Some 116004)"
  using parse_cfdi_xml_amounts [OF parse_doc_services [of demo_state], of "cps ''cfdi.xml''"]
    parse_doc_services [of demo_state]
  by (simp add: doc_defs demo_platform_fields demo_state_fields demo_float_defs)

text \<open>
  C3 as stated fails where an amount is not a number. \<open>float\<close> accepts the text
  \<open>nan\<close>: the document parses, total and tax amount are NaN, the comparison of the
  stored tax amount with \<open>round(total - subtotal, 2)\<close> is false, and the record is
  stored.
\<close>

theorem nan_total_counterexample:
  "attrib_get doc_nan ''Total'' = Some (cps ''nan'')
   \<and> py_float demo_platform (cps ''nan'') = Some None
   \<and> fst (parse_cfdi_xml demo_platform (Some doc_nan) demo_state) =
       Inr \<lparr>uuid = demo_uuids 0,
            emisor_rfc = Some (cps ''XAXX010101000''),
            receptor_rfc = Some (cps ''BBB020202BBB''),
            concept = cps ''Servicios de consultoria'',
            subtotal = Some 100000, iva = None, total = None,
            fecha = Some (cps ''2024-01-15T09:00:00'')\<rparr>
   \<and> \<not> float_eq demo_platform None
          (round2 demo_platform (float_sub demo_platform None (Some 100000)))
   \<and> fst (upload_cfdi demo_platform (upload_of doc_nan) demo_state) = Redirect (cps ''dashboard'')
   \<and> map iva (CFDIS (snd (upload_cfdi demo_platform (upload_of doc_nan) demo_state))) = [None]
   \<and> map total (CFDIS (snd (upload_cfdi demo_platform (upload_of doc_nan) demo_state)))
       = [None]"
proof -
  let ?up = "upload_cfdi demo_platform (Some (cps ''cfdi.xml'', Some doc_nan)) demo_state"
  from parse_doc_nan [of demo_state] obtain r where
    r: "fst ?up = Redirect (cps ''dashboard'')" "CFDIS (snd ?up) = CFDIS demo_state @ [r]"
      "cfdi_data.truncate r =
         \<lparr>uuid = uuid_src demo_state (uuid_ix demo_state),
          emisor_rfc = Some (cps ''XAXX010101000''),
          receptor_rfc = Some (cps ''BBB020202BBB''),
          concept = cps ''Servicios de consultoria'',
          subtotal = Some 100000, iva = None, total = None,
          fecha = Some (cps ''2024-01-15T09:00:00'')\<rparr>"
    by (rule upload_cfdi_parsedE)
  from truncate_fields [OF r(3)] have "iva r = None" "total r = None" by simp_all
  with r(1,2) parse_doc_nan [of demo_state] show ?thesis
    by (simp add: upload_of_def doc_defs demo_platform_fields demo_state_fields demo_float_defs)
qed




section \<open>Evidence at upload time, invoice store and alert store\<close>

text \<open>The store after the history that files evidence.\<close>

lemma evidence_history_state:
  "\<exists>r. CFDIS (run demo_platform evidence_history demo_state) = [r]
     \<and> uuid r = demo_uuids 0
     \<and> riesgo r = \<lparr>score = 25, level = BAJO, reasons = [reason_no_evidence]\<rparr>
     \<and> map ev_cfdi_uuid (EVIDENCES (run demo_platform evidence_history demo_state))
         = [demo_uuids 0]
     \<and> uuid_src (run demo_platform evidence_history demo_state) = demo_uuids
     \<and> uuid_ix (run demo_platform evidence_history demo_state) = 4
     \<and> unanticipated 5 demo_platform evidence_history demo_state
     \<and> ALERTS (run demo_platform evidence_history demo_state) = []"
proof -
  define sa where "sa = demo_state\<lparr>session := director\<rparr>"
  define sb where
    "sb = snd (upload_cfdi demo_platform (Some (cps ''cfdi.xml'', Some doc_services)) sa)"
  define sc where "sc = sb\<lparr>session := Some (cps ''contador@arkanum'')\<rparr>"
  define sd where "sd = snd (upload_evidence demo_platform (Some (demo_uuids 0))
      (Some (cps ''contrato.pdf'', None)) sc)"
  have h1: "snd (handle demo_platform (PostUploadCfdi (upload_of doc_services)) sa) = sb"
    by (simp add: handle_def login_required_None director_def upload_of_def sa_def sb_def)
  have h2: "snd (handle demo_platform
      (PostUploadEvidence (Some (demo_uuids 0)) (Some (cps ''contrato.pdf'', None))) sc) = sd"
    by (simp add: handle_def login_required_None sc_def sd_def)
  have run: "run demo_platform evidence_history demo_state = sd"
    unfolding evidence_history_def run.simps sa_def [symmetric] h1 sc_def [symmetric] h2 ..
  have sa: "EVIDENCES sa = []" "CFDIS sa = []" "ALERTS sa = []" "uuid_ix sa = 0"
    "uuid_src sa = demo_uuids" "clock_ix sa = 0" "clock_src sa = demo_clock"
    by (simp_all add: sa_def demo_state_fields)
  let ?d = "\<lparr>uuid = demo_uuids 0,
           emisor_rfc = Some (cps ''XAXX010101000''),
           receptor_rfc = Some (cps ''BBB020202BBB''),
           concept = cps ''Servicios de consultoria'',
           subtotal = Some (100000 :: int), iva = Some 16000, total = Some 116004,
           fecha = Some (cps ''2024-01-15T09:00:00'')\<rparr>"
  have p: "parse_cfdi_xml demo_platform (Some doc_services) sa =
      (Inr ?d, sa\<lparr>uuid_ix := uuid_ix sa + 1\<rparr>)"
    using parse_doc_services [of sa] by (simp add: sa)
  from p obtain r where r: "CFDIS sb = CFDIS sa @ [r]" "EVIDENCES sb = EVIDENCES sa"
    "cfdi_data.truncate r = ?d"
    "concept_type r = classify_concept (ucd_upper demo_platform) (concept ?d)"
    "efos r = fst (check_rfc_efos (emisor_rfc ?d) sa)"
    "riesgo r = risk_engine r (efos r)
            (filter (\<lambda>e. ev_cfdi_uuid e = uuid ?d) (EVIDENCES sa))"
    "uuid_src sb = uuid_src sa"
    "uuid_ix sb = uuid_ix sa + (if level (riesgo r) \<noteq> BAJO then 3 else 2)"
    "ALERTS sb =
         (if level (riesgo r) \<noteq> BAJO
          then ALERTS sa @ [\<lparr>alert_id = uuid_src sa (uuid_ix sa + 1),
                            alert_cfdi_uuid = uuid ?d,
                            alert_level = level (riesgo r),
                            alert_reasons = reasons (riesgo r),
                            alert_ts = clock_src sa (clock_ix sa + 2)\<rparr>]
          else ALERTS sa)"
    unfolding sb_def by (rule upload_cfdi_parsedE)
  from truncate_fields [OF r(3)] have u: "uuid r = demo_uuids 0" by simp
  have ct: "concept_type r \<noteq> GENERICO"
    using categories_distinct by (simp add: r(4) demo_platform_fields classify_services)
  have ef: "\<not> is_efos (efos r)"
    by (simp add: r(5) services_not_listed)
  have rk: "riesgo r = \<lparr>score = 25, level = BAJO, reasons = [reason_no_evidence]\<rparr>"
    by (simp add: r(6) sa risk_engine_def Let_def ct ef)
  have sb: "CFDIS sb = [r]" "EVIDENCES sb = []" "uuid_src sb = demo_uuids" "uuid_ix sb = 2"
    "ALERTS sb = []"
    by (simp_all add: r(1,2,7,8,9) sa rk)
  have sc: "CFDIS sc = [r]" "EVIDENCES sc = []" "uuid_src sc = demo_uuids" "uuid_ix sc = 2"
    "ALERTS sc = []"
    by (simp_all add: sc_def sb)
  have sd: "CFDIS sd = [r]" "map ev_cfdi_uuid (EVIDENCES sd) = [demo_uuids 0]"
    "uuid_src sd = demo_uuids" "uuid_ix sd = 4" "ALERTS sd = []"
    by (simp_all add: sd_def upload_evidence_state upload_evidence_effect sc)
  have "\<And>k. 2 \<le> k \<Longrightarrow> k < 5 \<Longrightarrow> demo_uuids k \<noteq> demo_uuids 0"
    by (rule demo_uuids_later) simp_all
  then have nd: "not_drawn_later 5 sb (demo_uuids 0)"
    by (simp add: not_drawn_later_def list_all_iff sb)
  have una: "unanticipated 5 demo_platform evidence_history demo_state"
    unfolding evidence_history_def unanticipated.simps sa_def [symmetric] h1
      sc_def [symmetric] h2
    using nd by simp
  show ?thesis
    unfolding run by (rule exI [of _ r]) (simp add: sd u rk una [unfolded run])
qed

text \<open>
  C5. The identifier of an invoice is the token that \<open>uuid4\<close> returns during the
  parse. A client cannot name a token before it has been drawn: that is what makes the
  token fresh, and it is the hypothesis here, on the requests served since the first
  start (\<open>unanticipated\<close>, up to a draw \<open>n\<close> that lies after the next one). Then
  every invoice in the store was scored against an empty evidence list, has a score of
  at least 25 and carries the no-evidence reason; and for a document that parses in the
  state reached, the drawn identifier differs from the owning-invoice identifier of
  every stored evidence record, the evidence list handed to the risk engine is empty,
  and the record that the upload appends has a score of at least 25 with the no-evidence
  reason.
\<close>

theorem upload_cfdi_no_evidence:
  assumes s: "s = run P reqs (init_state P us cl)"
    and una: "unanticipated n P reqs (init_state P us cl)"
    and nxt: "uuid_ix s < n"
  shows "(\<forall>c\<in>set (CFDIS s).
            riesgo c = risk_engine c (efos c) []
            \<and> 25 \<le> score (riesgo c) \<and> reason_no_evidence \<in> set (reasons (riesgo c)))
    \<and> (\<forall>fname bytes d s1. parse_cfdi_xml P bytes s = (Inr d, s1) \<longrightarrow>
          uuid d = uuid_src s (uuid_ix s)
          \<and> list_all (\<lambda>e. ev_cfdi_uuid e \<noteq> uuid d) (EVIDENCES s)
          \<and> filter (\<lambda>e. ev_cfdi_uuid e = uuid d) (EVIDENCES s) = []
          \<and> (\<exists>r. CFDIS (snd (upload_cfdi P (Some (fname, bytes)) s)) = CFDIS s @ [r]
                \<and> uuid r = uuid d
                \<and> riesgo r = risk_engine r (efos r)
                    (filter (\<lambda>e. ev_cfdi_uuid e = uuid d) (EVIDENCES s))
                \<and> riesgo r = risk_engine r (efos r) []
                \<and> 25 \<le> score (riesgo r)
                \<and> reason_no_evidence \<in> set (reasons (riesgo r))))"
proof (rule conjI)
  let ?s0 = "init_state P us cl"
  have init: "evidence_known n ?s0" "\<forall>c\<in>set (CFDIS ?s0). riesgo c = risk_engine c (efos c) []"
    by (simp_all add: evidence_known_def init_state_def Let_def save_db_def write_file_def)
  from nxt have "uuid_ix (run P reqs ?s0) \<le> n" unfolding s by simp
  from run_no_evidence [OF this una init]
  have known: "evidence_known n s"
    and scored: "\<forall>c\<in>set (CFDIS s). riesgo c = risk_engine c (efos c) []"
    unfolding s by simp_all
  show "\<forall>c\<in>set (CFDIS s).
            riesgo c = risk_engine c (efos c) []
            \<and> 25 \<le> score (riesgo c) \<and> reason_no_evidence \<in> set (reasons (riesgo c))"
  proof
    fix c assume "c \<in> set (CFDIS s)"
    with scored have "riesgo c = risk_engine c (efos c) []" by simp
    with risk_engine_no_evidence [of c "efos c"]
    show "riesgo c = risk_engine c (efos c) []
            \<and> 25 \<le> score (riesgo c) \<and> reason_no_evidence \<in> set (reasons (riesgo c))"
      by simp
  qed
  show "\<forall>fname bytes d s1. parse_cfdi_xml P bytes s = (Inr d, s1) \<longrightarrow>
          uuid d = uuid_src s (uuid_ix s)
          \<and> list_all (\<lambda>e. ev_cfdi_uuid e \<noteq> uuid d) (EVIDENCES s)
          \<and> filter (\<lambda>e. ev_cfdi_uuid e = uuid d) (EVIDENCES s) = []
          \<and> (\<exists>r. CFDIS (snd (upload_cfdi P (Some (fname, bytes)) s)) = CFDIS s @ [r]
                \<and> uuid r = uuid d
                \<and> riesgo r = risk_engine r (efos r)
                    (filter (\<lambda>e. ev_cfdi_uuid e = uuid d) (EVIDENCES s))
                \<and> riesgo r = risk_engine r (efos r) []
                \<and> 25 \<le> score (riesgo r)
                \<and> reason_no_evidence \<in> set (reasons (riesgo r)))"
  proof (intro allI impI)
    fix fname bytes d s1
    assume p: "parse_cfdi_xml P bytes s = (Inr d, s1)"
    from p have u: "uuid d = uuid_src s (uuid_ix s)"
      by (elim parse_cfdi_xml_Inr) (metis cfdi_data.select_convs(1))
    from evidence_known_filter [OF known nxt]
    have e: "filter (\<lambda>e. ev_cfdi_uuid e = uuid d) (EVIDENCES s) = []"
      unfolding u .
    then have l: "list_all (\<lambda>e. ev_cfdi_uuid e \<noteq> uuid d) (EVIDENCES s)"
      by (simp add: filter_empty_conv list_all_iff)
    from p obtain r where
      r: "CFDIS (snd (upload_cfdi P (Some (fname, bytes)) s)) = CFDIS s @ [r]"
      "cfdi_data.truncate r = d"
      "riesgo r = risk_engine r (efos r) (filter (\<lambda>e. ev_cfdi_uuid e = uuid d) (EVIDENCES s))"
      by (rule upload_cfdi_parsedE)
    from truncate_fields [OF r(2)] have ur: "uuid r = uuid d" by simp
    from r(3) have rk: "riesgo r = risk_engine r (efos r) []" by (simp only: e)
    with risk_engine_no_evidence [of r "efos r"]
    have "25 \<le> score (riesgo r)" "reason_no_evidence \<in> set (reasons (riesgo r))"
      by simp_all
    with u e l r(1,3) ur rk
    show "uuid d = uuid_src s (uuid_ix s)
          \<and> list_all (\<lambda>e. ev_cfdi_uuid e \<noteq> uuid d) (EVIDENCES s)
          \<and> filter (\<lambda>e. ev_cfdi_uuid e = uuid d) (EVIDENCES s) = []
          \<and> (\<exists>r. CFDIS (snd (upload_cfdi P (Some (fname, bytes)) s)) = CFDIS s @ [r]
                \<and> uuid r = uuid d
                \<and> riesgo r = risk_engine r (efos r)
                    (filter (\<lambda>e. ev_cfdi_uuid e = uuid d) (EVIDENCES s))
                \<and> riesgo r = risk_engine r (efos r) []
                \<and> 25 \<le> score (riesgo r)
                \<and> reason_no_evidence \<in> set (reasons (riesgo r)))"
      by blast
  qed
qed

theorem upload_cfdi_no_evidence_witness:
  "unanticipated 5 demo_platform evidence_history demo_state
   \<and> uuid_ix (run demo_platform evidence_history demo_state) = 4
   \<and> map ev_cfdi_uuid (EVIDENCES (run demo_platform evidence_history demo_state))
       = [demo_uuids 0]
   \<and> map uuid (CFDIS (run demo_platform evidence_history demo_state)) = [demo_uuids 0]
   \<and> map (score \<circ> riesgo) (CFDIS (run demo_platform evidence_history demo_state)) = [25]
   \<and> list_all (\<lambda>c. 25 \<le> score (riesgo c) \<and> reason_no_evidence \<in> set (reasons (riesgo c)))
        (CFDIS (run demo_platform evidence_history demo_state))
   \<and> fst (parse_cfdi_xml demo_platform (Some doc_bare)
              (run demo_platform evidence_history demo_state)) =
       Inr \<lparr>uuid = demo_uuids 4, emisor_rfc = None, receptor_rfc = None, concept = [],
            subtotal = Some 0, iva = Some 0, total = Some 0, fecha = None\<rparr>
   \<and> filter (\<lambda>e. ev_cfdi_uuid e = demo_uuids 4)
        (EVIDENCES (run demo_platform evidence_history demo_state)) = []"
proof -
  let ?s = "run demo_platform evidence_history demo_state"
  from evidence_history_state obtain r where
    st: "CFDIS ?s = [r]" "uuid r = demo_uuids 0"
      "riesgo r = \<lparr>score = 25, level = BAJO, reasons = [reason_no_evidence]\<rparr>"
      "map ev_cfdi_uuid (EVIDENCES ?s) = [demo_uuids 0]"
      "uuid_src ?s = demo_uuids" "uuid_ix ?s = 4"
      "unanticipated 5 demo_platform evidence_history demo_state"
      "ALERTS ?s = []"
    by (elim exE conjE)
  have s: "?s = run demo_platform evidence_history (init_state demo_platform demo_uuids demo_clock)"
    by (simp add: demo_state_def)
  have nxt: "uuid_ix ?s < 5" by (simp add: st)
  note inst = upload_cfdi_no_evidence [OF s st(7) [unfolded demo_state_def] nxt]
  from inst have a: "list_all (\<lambda>c. 25 \<le> score (riesgo c)
        \<and> reason_no_evidence \<in> set (reasons (riesgo c))) (CFDIS ?s)"
    unfolding list_all_iff by blast
  have p: "parse_cfdi_xml demo_platform (Some doc_bare) ?s =
     (Inr \<lparr>uuid = demo_uuids 4, emisor_rfc = None, receptor_rfc = None,
           concept = [], subtotal = Some 0, iva = Some 0, total = Some 0, fecha = None\<rparr>,
      ?s\<lparr>uuid_ix := uuid_ix ?s + 1\<rparr>)"
    using parse_doc_bare [of ?s] by (simp add: st)
  from inst p have b: "filter (\<lambda>e. ev_cfdi_uuid e = demo_uuids 4) (EVIDENCES ?s) = []"
    by fastforce
  from a b p st show ?thesis by simp
qed




section \<open>Exports and access control\<close>

text \<open>
  C7. When no stored invoice is ISR-deductible, the ISR export sends a file with no
  row at all, not even the header; likewise the IVA export when no stored invoice is
  IVA-creditable. Either export is a total function that answers with the file, and
  behind the wrapper a logged-in session reaches it.
\<close>

theorem export_without_rows:
  "((\<forall>c\<in>set (CFDIS s). \<not> isr_deductible (taxonomy c)) \<longrightarrow>
      fst (export_isr P s) = SendFile (cps ''data/cedula_isr.csv'') (Csv []))
   \<and> ((\<forall>c\<in>set (CFDIS s). \<not> iva_creditable (taxonomy c)) \<longrightarrow>
      fst (export_iva P s) = SendFile (cps ''data/cedula_iva.csv'') (Csv []))
   \<and> (session s = Some u \<longrightarrow>
        handle P GetExportIsr s = export_isr P s \<and> handle P GetExportIva s = export_iva P s)"
  by (simp add: export_isr_def export_iva_def isr_rows_def iva_rows_def write_csv_def
      Let_def handle_def login_required_None filter_empty_conv data_paths)

theorem export_without_rows_witness:
  "map (isr_deductible \<circ> taxonomy) (CFDIS (run demo_platform generic_only demo_state)) = [False]
   \<and> map (iva_creditable \<circ> taxonomy) (CFDIS (run demo_platform generic_only demo_state))
       = [False]
   \<and> fst (export_isr demo_platform (run demo_platform generic_only demo_state))
       = SendFile (cps ''data/cedula_isr.csv'') (Csv [])
   \<and> fst (export_iva demo_platform (run demo_platform generic_only demo_state))
       = SendFile (cps ''data/cedula_iva.csv'') (Csv [])"
proof -
  let ?s = "run demo_platform generic_only demo_state"
  from generic_only_state obtain r where r: "CFDIS ?s = [r]"
    "\<not> isr_deductible (taxonomy r)" "\<not> iva_creditable (taxonomy r)" by blast
  then have h: "\<forall>c\<in>set (CFDIS ?s). \<not> isr_deductible (taxonomy c)"
    "\<forall>c\<in>set (CFDIS ?s). \<not> iva_creditable (taxonomy c)" by simp_all
  from export_without_rows [where s = "?s" and P = demo_platform and u = "cps ''director@arkanum''"] h
  have "fst (export_isr demo_platform ?s) = SendFile (cps ''data/cedula_isr.csv'') (Csv [])"
    "fst (export_iva demo_platform ?s) = SendFile (cps ''data/cedula_iva.csv'') (Csv [])"
    by blast+
  with r show ?thesis by simp
qed

text \<open>
  C10. Every guarded route is wrapped with \<open>login_required()\<close>, without a role. So
  for a session with a user, the wrapper hands over to the route: dashboard, both
  uploads and the three exports run whatever the role of the user, and the dashboard
  shows that role. No request, in any state, is answered with 403.
\<close>

theorem no_route_role_gated:
  "(session s = Some u \<longrightarrow>
      login_required None fn s = fn s
      \<and> handle P GetDashboard s = dashboard s
      \<and> handle P (PostUploadCfdi f) s = upload_cfdi P f s
      \<and> handle P (PostUploadEvidence cu f) s = upload_evidence P cu f s
      \<and> handle P GetExportIsr s = export_isr P s
      \<and> handle P GetExportIva s = export_iva P s
      \<and> handle P GetExportJson s = export_json P s)
   \<and> (session s = Some u \<and> USERS s u = Some usr \<longrightarrow>
        fst (handle P GetDashboard s) = DashboardPage (role usr) (CFDIS s) (ALERTS s))
   \<and> fst (handle P r s) \<noteq> Forbidden"
proof (intro conjI impI)
  show "fst (handle P r s) \<noteq> Forbidden"
    by (cases r)
      (simp_all add: handle_def login_required_None handler_not_forbidden
        upload_cfdi_not_forbidden split: option.splits)
qed (simp_all add: handle_def login_required_None dashboard_def)

theorem no_route_role_gated_witness:
  "session (demo_state\<lparr>session := director\<rparr>) = Some (cps ''director@arkanum'')
   \<and> fst (handle demo_platform GetDashboard (demo_state\<lparr>session := director\<rparr>))
       = DashboardPage (cps ''DIRECTOR'') [] []
   \<and> fst (handle demo_platform GetDashboard
            (demo_state\<lparr>session := Some (cps ''contador@arkanum'')\<rparr>))
       = DashboardPage (cps ''CONTADOR'') [] []
   \<and> fst (handle demo_platform GetExportJson
            (demo_state\<lparr>session := Some (cps ''contador@arkanum'')\<rparr>))
       = SendFile (cps ''data/arkanum_export.json'') (JsonDump [] [] [])"
proof -
  let ?d = "demo_state\<lparr>session := director\<rparr>"
  let ?c = "demo_state\<lparr>session := Some (cps ''contador@arkanum'')\<rparr>"
  have d: "session ?d = Some (cps ''director@arkanum'')"
    "USERS ?d (cps ''director@arkanum'')
       = Some \<lparr>password = cps ''1234'', role = cps ''DIRECTOR''\<rparr>"
    "CFDIS ?d = []" "ALERTS ?d = []"
    by (simp_all add: director_def demo_state_fields default_users_def cps_def)
  have c: "session ?c = Some (cps ''contador@arkanum'')"
    "USERS ?c (cps ''contador@arkanum'')
       = Some \<lparr>password = cps ''1234'', role = cps ''CONTADOR''\<rparr>"
    "CFDIS ?c = []" "ALERTS ?c = []" "LOGS ?c = []"
    by (simp_all add: demo_state_fields default_users_def cps_def)
  note dir = no_route_role_gated [where s = ?d and u = "cps ''director@arkanum''"
      and P = demo_platform and usr = "\<lparr>password = cps ''1234'', role = cps ''DIRECTOR''\<rparr>"]
  note ic = no_route_role_gated [where s = ?c and u = "cps ''contador@arkanum''"
      and P = demo_platform and usr = "\<lparr>password = cps ''1234'', role = cps ''CONTADOR''\<rparr>"]
  from dir [THEN conjunct2, THEN conjunct1] d
  have 1: "fst (handle demo_platform GetDashboard ?d) = DashboardPage (cps ''DIRECTOR'') [] []"
    by simp
  from ic [THEN conjunct2, THEN conjunct1] c
  have 2: "fst (handle demo_platform GetDashboard ?c) = DashboardPage (cps ''CONTADOR'') [] []"
    by simp
  from ic [THEN conjunct1] c(1)
  have 3: "handle demo_platform GetExportJson ?c = export_json demo_platform ?c"
    by simp
  have 4: "fst (export_json demo_platform ?c)
      = SendFile (cps ''data/arkanum_export.json'') (JsonDump [] [] [])"
    by (simp add: export_json_def Let_def c data_paths)
  from d(1) 1 2 3 4 show ?thesis by simp
qed

end
